theory Spec2Isabelle
  imports Complex_Main "HOL-Library.Word" "HOL-Library.Log_Nat"
begin

section \<open>Shared data: the five price fields\<close>

text \<open>
  The same five fields occur on both sides of the system: as \<open>uint256\<close> storage
  variables of \<open>contracts/GoldOracle.sol\<close> (and in the struct \<open>PriceData\<close> of
  \<open>IGoldOracle.sol\<close>, which adds \<open>lastUpdated\<close>), and as the object returned by
  \<open>calculatePrices\<close> and \<open>getCurrentContractPrices\<close> in the JavaScript services.
  The records are polymorphic in the number type: \<open>uint256\<close> on chain, \<open>int\<close> for the
  integer-valued Numbers and the BigInts of the JavaScript side.
\<close>

record 'n PriceSet =
  pricePerGram :: 'n
  pricePerOunce :: 'n
  pricePerKarat24 :: 'n
  pricePerKarat22 :: 'n
  pricePerKarat18 :: 'n

record 'n PriceData = "'n PriceSet" +
  lastUpdated :: 'n

section \<open>JavaScript Numbers\<close>

text \<open>
  A JavaScript Number is an IEEE-754 double, and each arithmetic operation returns the
  exact result rounded to the nearest double, ties going to the even significand.
  A finite double is modelled by the real number it denotes. \<open>double x\<close> is the double
  nearest to \<open>x\<close>: a double has 53 significant bits, so the doubles in the binade
  \<open>2^e \<le> |x| < 2^(e+1)\<close> are the multiples of \<open>2^(e-52)\<close>; below \<open>2^(-1022)\<close> the
  spacing stays \<open>2^(-1074)\<close> (subnormal numbers). \<open>double\<close> rounds as though the exponent
  had no upper limit: where the value it gives exceeds \<open>MAX_VALUE\<close>, the largest double,
  in magnitude, the operation of JavaScript overflows and returns \<open>Infinity\<close> or
  \<open>-Infinity\<close> instead. \<open>Infinity\<close> and \<open>NaN\<close> are not values of the model, which is
  that of JavaScript for as long as no result exceeds \<open>MAX_VALUE\<close>; a statement that
  needs finite results carries the bound that keeps them so.
\<close>

definition round_ties_even :: "real \<Rightarrow> int" where
  "round_ties_even x =
     (let n = \<lfloor>x\<rfloor>; r = x - of_int n
      in if r < 1 / 2 then n
         else if 1 / 2 < r then n + 1
         else if even n then n else n + 1)"

definition binade :: "real \<Rightarrow> int" where
  "binade x = max (- 1022) \<lfloor>log 2 \<bar>x\<bar>\<rfloor>"

definition ulp :: "real \<Rightarrow> real" where
  "ulp x = 2 powi (binade x - 52)"

definition double :: "real \<Rightarrow> real" where
  "double x = (if x = 0 then 0 else of_int (round_ties_even (x / ulp x)) * ulp x)"

text \<open>\<open>Number.MAX_VALUE\<close>, the largest double.\<close>

definition MAX_VALUE :: real where
  "MAX_VALUE = 2 ^ 1024 - 2 ^ 971"

text \<open>The operators \<open>/\<close> and \<open>*\<close> on Numbers, and \<open>Math.floor\<close>.\<close>

definition js_div :: "real \<Rightarrow> real \<Rightarrow> real" where
  "js_div x y = double (x / y)"

definition js_mul :: "real \<Rightarrow> real \<Rightarrow> real" where
  "js_mul x y = double (x * y)"

definition Math_floor :: "real \<Rightarrow> int" where
  "Math_floor x = \<lfloor>x\<rfloor>"

text \<open>\<open>String(n)\<close> of a non-negative integer: its decimal digits.\<close>

fun string_of_nat :: "nat \<Rightarrow> string" where
  "string_of_nat n =
     (if n < 10 then [''0123456789'' ! n]
      else string_of_nat (n div 10) @ [''0123456789'' ! (n mod 10)])"

section \<open>src/config/index.js\<close>

text \<open>
  The \<open>update\<close> entry of the configuration object. \<open>intervalMinutes\<close> is read from
  the environment; the two retry settings are fixed.
\<close>

record update_config =
  intervalMinutes :: nat
  maxRetries :: nat
  retryDelayMs :: nat

definition config_update :: "nat \<Rightarrow> update_config" where
  "config_update UPDATE_INTERVAL_MINUTES =
     \<lparr>intervalMinutes = UPDATE_INTERVAL_MINUTES, maxRetries = 3, retryDelayMs = 5000\<rparr>"

section \<open>src/services/goldApiService.js\<close>

subsection \<open>The request\<close>

text \<open>
  What one \<open>axios.get\<close> meets: an HTTP response with its status, status text and parsed
  JSON body, no response at all, or a failure before the request was sent. Of the body
  only the field \<open>price\<close> is read. \<open>No_data\<close> is an empty or \<open>null\<close> body; \<open>Data None\<close>
  is a body whose \<open>price\<close> is missing or is a falsy value that is not a Number
  (\<open>null\<close>, \<open>false\<close>, the empty string); \<open>Data (Some p)\<close> is a body with the Number
  \<open>p\<close> as its price. A price that is truthy and not a Number is not modelled.
\<close>

datatype body = No_data | Data "real option"

datatype http_exchange =
    Http_response nat string body
  | No_response
  | Setup_failure string

text \<open>
  A thrown JavaScript error: its message, and the two properties that axios sets and
  the handler of \<open>fetchGoldPrice\<close> inspects (\<open>error.response\<close> with status and status
  text, \<open>error.request\<close>). \<open>new Error(m)\<close> has neither.
\<close>

record js_error =
  message :: string
  response :: "(nat \<times> string) option"
  request :: bool

definition Error :: "string \<Rightarrow> js_error" where
  "Error m = \<lparr>message = m, response = None, request = False\<rparr>"

text \<open>
  \<open>axios.get\<close> with the default \<open>validateStatus\<close>: the promise is fulfilled with the
  response for a status from 200 to 299 and rejected otherwise.
\<close>

definition axios_get :: "http_exchange \<Rightarrow> js_error + body" where
  "axios_get x =
     (case x of
        Http_response status statusText d \<Rightarrow>
          if 200 \<le> status \<and> status < 300 then Inr d
          else Inl \<lparr>message = ''Request failed with status code '' @ string_of_nat status,
                    response = Some (status, statusText), request = True\<rparr>
      | No_response \<Rightarrow> Inl \<lparr>message = ''Network Error'', response = None, request = True\<rparr>
      | Setup_failure m \<Rightarrow> Inl (Error m))"

text \<open>The object \<open>response.data\<close> once its \<open>price\<close> is known to be a non-zero Number.\<close>

record apiData =
  price :: real

text \<open>
  The \<open>try\<close> block of \<open>fetchGoldPrice\<close>: \<open>response.data && response.data.price\<close> is
  false for a missing body, a missing price and the price 0.
\<close>

definition fetchGoldPrice_try :: "http_exchange \<Rightarrow> js_error + apiData" where
  "fetchGoldPrice_try x =
     (case axios_get x of
        Inl error \<Rightarrow> Inl error
      | Inr d \<Rightarrow>
          (case d of
             Data (Some p) \<Rightarrow>
               if p \<noteq> 0 then Inr \<lparr>price = p\<rparr>
               else Inl (Error ''Invalid response format from GoldAPI'')
           | _ \<Rightarrow> Inl (Error ''Invalid response format from GoldAPI'')))"

text \<open>The \<open>catch\<close> block, which every error of the \<open>try\<close> block passes through.\<close>

definition fetchGoldPrice_catch :: "js_error \<Rightarrow> js_error" where
  "fetchGoldPrice_catch error =
     (case response error of
        Some (status, statusText) \<Rightarrow> Error (''GoldAPI request failed: '' @ string_of_nat status)
      | None \<Rightarrow> if request error then Error ''GoldAPI did not respond'' else error)"

definition fetchGoldPrice :: "http_exchange \<Rightarrow> js_error + apiData" where
  "fetchGoldPrice x =
     (case fetchGoldPrice_try x of
        Inl error \<Rightarrow> Inl (fetchGoldPrice_catch error)
      | Inr d \<Rightarrow> Inr d)"

subsection \<open>The five prices\<close>

definition GRAMS_PER_OUNCE :: real where
  "GRAMS_PER_OUNCE = double 31.1035"

text \<open>
  No statement of \<open>calculatePrices\<close> throws: it returns its object for every Number.
  The result is a sum all the same, as for every function whose caller has a
  \<open>catch\<close> block. The local variables \<open>pricePerOunce\<close>, \<open>pricePerGram\<close>, ... of the
  source are \<open>perOunce\<close>, \<open>perGram\<close>, ... here, the longer names being those of the
  fields. Each \<open>/\<close> and \<open>*\<close> of the source is one rounded operation, and so are the
  literals \<open>31.1035\<close> and \<open>22 / 24\<close>; the integer literals are doubles as they stand.
\<close>

definition calculatePrices :: "apiData \<Rightarrow> js_error + int PriceSet" where
  "calculatePrices d =
     (let perOunce = price d;
          perGram = js_div perOunce GRAMS_PER_OUNCE;
          perKarat24 = perGram;
          perKarat22 = js_mul perKarat24 (js_div 22 24);
          perKarat18 = js_mul perKarat24 (js_div 18 24);
          DECIMALS = 100000000
      in Inr \<lparr>pricePerGram = Math_floor (js_mul perGram DECIMALS),
              pricePerOunce = Math_floor (js_mul perOunce DECIMALS),
              pricePerKarat24 = Math_floor (js_mul perKarat24 DECIMALS),
              pricePerKarat22 = Math_floor (js_mul perKarat22 DECIMALS),
              pricePerKarat18 = Math_floor (js_mul perKarat18 DECIMALS)\<rparr>)"

subsection \<open>Fetching with retries\<close>

text \<open>
  The world outside the process, as far as \<open>getGoldPrices\<close> touches it: how many
  requests have been sent, and the delays of the timers that were awaited, oldest first.
  The exchange that the \<open>n\<close>-th request meets is \<open>net n\<close>. What the logger prints is
  left out, here and below.
\<close>

record world =
  requests :: nat
  timeouts :: "nat list"

text \<open>
  One attempt is the \<open>try\<close> block of \<open>getGoldPrices\<close>: the request, then the
  calculation. An error of either reaches the \<open>catch\<close> block, which waits and calls
  \<open>getGoldPrices\<close> again while \<open>retryCount < maxRetries\<close>, and throws the error
  otherwise.
\<close>

definition getGoldPrices_try :: "http_exchange \<Rightarrow> js_error + int PriceSet" where
  "getGoldPrices_try x =
     (case fetchGoldPrice x of
        Inl error \<Rightarrow> Inl error
      | Inr d \<Rightarrow> calculatePrices d)"

function getGoldPrices ::
  "update_config \<Rightarrow> (nat \<Rightarrow> http_exchange) \<Rightarrow> nat \<Rightarrow> world \<Rightarrow> (js_error + int PriceSet) \<times> world" where
  "getGoldPrices cfg net retryCount w =
     (let w1 = w\<lparr>requests := requests w + 1\<rparr>
      in case getGoldPrices_try (net (requests w)) of
           Inr prices \<Rightarrow> (Inr prices, w1)
         | Inl error \<Rightarrow>
             if retryCount < maxRetries cfg
             then getGoldPrices cfg net (retryCount + 1)
                    (w1\<lparr>timeouts := timeouts w1 @ [retryDelayMs cfg]\<rparr>)
             else (Inl error, w1))"
  by pat_completeness auto
termination
  by (relation "measure (\<lambda>(cfg, net, retryCount, w). maxRetries cfg - retryCount)") auto

declare getGoldPrices.simps [simp del]

section \<open>src/services/oracleUpdater.js\<close>

text \<open>
  The calls into the ethers library, each with the outcome the network gives it: the
  read of \<open>getAllPrices\<close>, the gas estimate for \<open>updatePrices\<close>, the fee data, the
  submission of the transaction (with the two fees chosen), and the wait for its receipt.
\<close>

record receipt =
  hash :: string
  blockNumber :: nat
  gasUsed :: nat

record feeData =
  maxFeePerGas :: "nat option"
  maxPriorityFeePerGas :: "nat option"

record chain =
  contract_getAllPrices :: "js_error + int PriceData"
  contract_updatePrices_estimateGas :: "int PriceSet \<Rightarrow> js_error + nat"
  provider_getFeeData :: "js_error + feeData"
  contract_updatePrices :: "int PriceSet \<Rightarrow> nat \<Rightarrow> nat \<Rightarrow> js_error + string"
  tx_wait :: "string \<Rightarrow> js_error + receipt"

text \<open>Each \<open>catch\<close> block of this module logs the error and throws it again.\<close>

definition getCurrentContractPrices :: "chain \<Rightarrow> js_error + int PriceData" where
  "getCurrentContractPrices ch =
     (case contract_getAllPrices ch of
        Inl error \<Rightarrow> Inl error
      | Inr prices \<Rightarrow>
          Inr \<lparr>pricePerGram = pricePerGram prices,
               pricePerOunce = pricePerOunce prices,
               pricePerKarat24 = pricePerKarat24 prices,
               pricePerKarat22 = pricePerKarat22 prices,
               pricePerKarat18 = pricePerKarat18 prices,
               lastUpdated = lastUpdated prices\<rparr>)"

text \<open>
  \<open>oldPrices\<close> is what \<open>getCurrentContractPrices\<close> read from the contract (BigInts),
  \<open>newPrices\<close> what \<open>calculatePrices\<close> computed (integer-valued Numbers, which
  \<open>BigInt(...)\<close> converts exactly). A BigInt and a Number compare by their mathematical
  values.
\<close>

definition pricesChanged :: "int PriceData \<Rightarrow> int PriceSet \<Rightarrow> bool" where
  "pricesChanged oldPrices newPrices =
     (if lastUpdated oldPrices = 0 then True
      else
        let threshold = 10000;
            gramDiff = (if pricePerGram oldPrices > pricePerGram newPrices
                        then pricePerGram oldPrices - pricePerGram newPrices
                        else pricePerGram newPrices - pricePerGram oldPrices)
        in gramDiff > threshold)"

text \<open>
  \<open>a || b\<close> on an optional BigInt: the default is taken for \<open>null\<close> and for \<open>0n\<close>.
  \<open>ethers.parseUnits(s, 'gwei')\<close> is \<open>s\<close> times \<open>10^9\<close>.
\<close>

definition or_default :: "nat option \<Rightarrow> nat \<Rightarrow> nat" where
  "or_default v d = (case v of None \<Rightarrow> d | Some n \<Rightarrow> if n = 0 then d else n)"

definition parseUnits_gwei :: "nat \<Rightarrow> nat" where
  "parseUnits_gwei n = n * 10 ^ 9"

definition updateContractPrices :: "chain \<Rightarrow> int PriceSet \<Rightarrow> js_error + receipt" where
  "updateContractPrices ch prices =
     (case contract_updatePrices_estimateGas ch prices of
        Inl error \<Rightarrow> Inl error
      | Inr gasEstimate \<Rightarrow>
          (case provider_getFeeData ch of
             Inl error \<Rightarrow> Inl error
           | Inr fees \<Rightarrow>
               let maxFee = or_default (maxFeePerGas fees) (parseUnits_gwei 50);
                   maxPriorityFee = or_default (maxPriorityFeePerGas fees) (parseUnits_gwei 30)
               in (case contract_updatePrices ch prices maxFee maxPriorityFee of
                     Inl error \<Rightarrow> Inl error
                   | Inr tx \<Rightarrow>
                       (case tx_wait ch tx of
                          Inl error \<Rightarrow> Inl error
                        | Inr r \<Rightarrow> Inr r))))"

text \<open>The two shapes of the object that \<open>updatePrices\<close> returns.\<close>

datatype UpdateResult =
    Not_updated string
  | Updated string nat string "int PriceSet"

definition updatePrices ::
  "update_config \<Rightarrow> (nat \<Rightarrow> http_exchange) \<Rightarrow> chain \<Rightarrow> world \<Rightarrow> (js_error + UpdateResult) \<times> world" where
  "updatePrices cfg net ch w =
     (case getGoldPrices cfg net 0 w of
        (Inl error, w') \<Rightarrow> (Inl error, w')
      | (Inr newPrices, w') \<Rightarrow>
          (case getCurrentContractPrices ch of
             Inl error \<Rightarrow> (Inl error, w')
           | Inr currentPrices \<Rightarrow>
               let needsUpdate = pricesChanged currentPrices newPrices
               in if \<not> needsUpdate then (Inr (Not_updated ''No significant price change''), w')
                  else (case updateContractPrices ch newPrices of
                          Inl error \<Rightarrow> (Inl error, w')
                        | Inr r \<Rightarrow>
                            (Inr (Updated (hash r) (blockNumber r)
                                    (string_of_nat (gasUsed r)) newPrices), w'))))"

section \<open>src/index.js: the two callers of updatePrices\<close>

text \<open>
  \<open>scheduledUpdate\<close>, run by the timer, catches whatever \<open>updatePrices\<close> throws and
  logs it. The handler of \<open>POST /update-prices\<close> answers with the result, or with
  status 500 and the message of the error.
\<close>

definition scheduledUpdate ::
  "update_config \<Rightarrow> (nat \<Rightarrow> http_exchange) \<Rightarrow> chain \<Rightarrow> world \<Rightarrow> (js_error + unit) \<times> world" where
  "scheduledUpdate cfg net ch w =
     (case updatePrices cfg net ch w of
        (Inl error, w') \<Rightarrow> (Inr (), w')
      | (Inr result, w') \<Rightarrow> (Inr (), w'))"

datatype reply =
    Reply_success UpdateResult
  | Reply_failure nat string string

definition post_update_prices ::
  "update_config \<Rightarrow> (nat \<Rightarrow> http_exchange) \<Rightarrow> chain \<Rightarrow> world \<Rightarrow> reply \<times> world" where
  "post_update_prices cfg net ch w =
     (case updatePrices cfg net ch w of
        (Inl error, w') \<Rightarrow> (Reply_failure 500 ''Failed to update prices'' (message error), w')
      | (Inr result, w') \<Rightarrow> (Reply_success result, w'))"

section \<open>contracts/GoldOracle.sol\<close>

type_synonym uint256 = "256 word"
type_synonym uint8 = "8 word"
type_synonym address = "160 word"

text \<open>The seven state variables of the contract.\<close>

record storage = "uint256 PriceData" +
  owner :: address

text \<open>
  What a call sees of its transaction: \<open>msg.sender\<close> and \<open>block.timestamp\<close>. No function
  of the contract is payable or reads anything else; a call is taken to carry no value
  and enough gas. The two events that the contract emits leave the storage as it is and
  are left out.
\<close>

record env =
  msg_sender :: address
  block_timestamp :: uint256

text \<open>
  A failed \<open>require\<close> or an explicit \<open>revert\<close> carries its message; checked
  arithmetic of Solidity 0.8 fails with a panic code (0x11 on overflow and underflow).
\<close>

datatype revert = Revert string | Panic nat

definition GoldOracle_DECIMALS :: uint8 where
  "GoldOracle_DECIMALS = 8"

definition STALENESS_THRESHOLD :: uint256 where
  "STALENESS_THRESHOLD = 3600"

text \<open>The modifier \<open>onlyOwner\<close>: the guard that runs before the function body.\<close>

definition onlyOwner :: "env \<Rightarrow> storage \<Rightarrow> revert + unit" where
  "onlyOwner e s =
     (if msg_sender e = owner s then Inr ()
      else Inl (Revert ''GoldOracle: caller is not the owner''))"

text \<open>The constructor: every variable at its default zero, the deployer as owner.\<close>

definition GoldOracle_constructor :: "env \<Rightarrow> storage" where
  "GoldOracle_constructor e =
     \<lparr>pricePerGram = 0, pricePerOunce = 0, pricePerKarat24 = 0, pricePerKarat22 = 0,
      pricePerKarat18 = 0, lastUpdated = 0, owner = msg_sender e\<rparr>"

definition GoldOracle_updatePrices ::
  "env \<Rightarrow> uint256 \<Rightarrow> uint256 \<Rightarrow> uint256 \<Rightarrow> uint256 \<Rightarrow> uint256 \<Rightarrow> storage \<Rightarrow> revert + storage" where
  "GoldOracle_updatePrices e gram ounce k24 k22 k18 s =
     (case onlyOwner e s of
        Inl r \<Rightarrow> Inl r
      | Inr _ \<Rightarrow>
          if \<not> gram > 0 then Inl (Revert ''GoldOracle: invalid gram price'')
          else if \<not> ounce > 0 then Inl (Revert ''GoldOracle: invalid ounce price'')
          else if \<not> k24 > 0 then Inl (Revert ''GoldOracle: invalid 24K price'')
          else if \<not> k22 > 0 then Inl (Revert ''GoldOracle: invalid 22K price'')
          else if \<not> k18 > 0 then Inl (Revert ''GoldOracle: invalid 18K price'')
          else Inr (s\<lparr>pricePerGram := gram,
                      pricePerOunce := ounce,
                      pricePerKarat24 := k24,
                      pricePerKarat22 := k22,
                      pricePerKarat18 := k18,
                      lastUpdated := block_timestamp e\<rparr>))"

definition getGoldPricePerGram :: "storage \<Rightarrow> uint256" where
  "getGoldPricePerGram s = pricePerGram s"

definition getGoldPricePerOunce :: "storage \<Rightarrow> uint256" where
  "getGoldPricePerOunce s = pricePerOunce s"

definition getGoldPriceByKarat :: "uint8 \<Rightarrow> storage \<Rightarrow> revert + uint256" where
  "getGoldPriceByKarat karat s =
     (if karat = 24 then Inr (pricePerKarat24 s)
      else if karat = 22 then Inr (pricePerKarat22 s)
      else if karat = 18 then Inr (pricePerKarat18 s)
      else Inl (Revert ''GoldOracle: invalid karat (must be 18, 22, or 24)''))"

definition getAllPrices :: "storage \<Rightarrow> uint256 PriceData" where
  "getAllPrices s =
     \<lparr>pricePerGram = pricePerGram s,
      pricePerOunce = pricePerOunce s,
      pricePerKarat24 = pricePerKarat24 s,
      pricePerKarat22 = pricePerKarat22 s,
      pricePerKarat18 = pricePerKarat18 s,
      lastUpdated = lastUpdated s\<rparr>"

definition getLastUpdated :: "storage \<Rightarrow> uint256" where
  "getLastUpdated s = lastUpdated s"

text \<open>
  \<open>block.timestamp - lastUpdated\<close> is a checked subtraction: it panics when the
  difference would be negative.
\<close>

definition isStale :: "env \<Rightarrow> storage \<Rightarrow> revert + bool" where
  "isStale e s =
     (if lastUpdated s = 0 then Inr True
      else if block_timestamp e < lastUpdated s then Inl (Panic 17)
      else Inr (block_timestamp e - lastUpdated s > STALENESS_THRESHOLD))"

definition transferOwnership :: "env \<Rightarrow> address \<Rightarrow> storage \<Rightarrow> revert + storage" where
  "transferOwnership e newOwner s =
     (case onlyOwner e s of
        Inl r \<Rightarrow> Inl r
      | Inr _ \<Rightarrow>
          if newOwner = 0 then Inl (Revert ''GoldOracle: new owner is the zero address'')
          else Inr (s\<lparr>owner := newOwner\<rparr>))"

subsection \<open>Calls and transactions\<close>

text \<open>
  Every externally callable function of the contract: the two state-changing functions,
  the six view functions, and the getters that \<open>public\<close> state variables and constants
  generate.
\<close>

datatype call =
    UpdatePrices uint256 uint256 uint256 uint256 uint256
  | TransferOwnership address
  | GetGoldPricePerGram
  | GetGoldPricePerOunce
  | GetGoldPriceByKarat uint8
  | GetAllPrices
  | GetLastUpdated
  | IsStale
  | Get_pricePerGram
  | Get_pricePerOunce
  | Get_pricePerKarat24
  | Get_pricePerKarat22
  | Get_pricePerKarat18
  | Get_lastUpdated
  | Get_owner
  | Get_DECIMALS
  | Get_STALENESS_THRESHOLD

datatype retval =
    RNone
  | RUint uint256
  | RUint8 uint8
  | RBool bool
  | RAddress address
  | RPriceData "uint256 PriceData"

text \<open>
  One call: the storage it leaves and the value it returns, or the revert. A view
  function returns the storage it was given.
\<close>

fun dispatch :: "env \<Rightarrow> call \<Rightarrow> storage \<Rightarrow> revert + (storage \<times> retval)" where
  "dispatch e (UpdatePrices gram ounce k24 k22 k18) s =
     (case GoldOracle_updatePrices e gram ounce k24 k22 k18 s of
        Inl r \<Rightarrow> Inl r
      | Inr s' \<Rightarrow> Inr (s', RNone))"
| "dispatch e (TransferOwnership newOwner) s =
     (case transferOwnership e newOwner s of
        Inl r \<Rightarrow> Inl r
      | Inr s' \<Rightarrow> Inr (s', RNone))"
| "dispatch e GetGoldPricePerGram s = Inr (s, RUint (getGoldPricePerGram s))"
| "dispatch e GetGoldPricePerOunce s = Inr (s, RUint (getGoldPricePerOunce s))"
| "dispatch e (GetGoldPriceByKarat karat) s =
     (case getGoldPriceByKarat karat s of
        Inl r \<Rightarrow> Inl r
      | Inr v \<Rightarrow> Inr (s, RUint v))"
| "dispatch e GetAllPrices s = Inr (s, RPriceData (getAllPrices s))"
| "dispatch e GetLastUpdated s = Inr (s, RUint (getLastUpdated s))"
| "dispatch e IsStale s =
     (case isStale e s of
        Inl r \<Rightarrow> Inl r
      | Inr b \<Rightarrow> Inr (s, RBool b))"
| "dispatch e Get_pricePerGram s = Inr (s, RUint (pricePerGram s))"
| "dispatch e Get_pricePerOunce s = Inr (s, RUint (pricePerOunce s))"
| "dispatch e Get_pricePerKarat24 s = Inr (s, RUint (pricePerKarat24 s))"
| "dispatch e Get_pricePerKarat22 s = Inr (s, RUint (pricePerKarat22 s))"
| "dispatch e Get_pricePerKarat18 s = Inr (s, RUint (pricePerKarat18 s))"
| "dispatch e Get_lastUpdated s = Inr (s, RUint (lastUpdated s))"
| "dispatch e Get_owner s = Inr (s, RAddress (owner s))"
| "dispatch e Get_DECIMALS s = Inr (s, RUint8 GoldOracle_DECIMALS)"
| "dispatch e Get_STALENESS_THRESHOLD s = Inr (s, RUint STALENESS_THRESHOLD)"

text \<open>
  The storage after a transaction: that of the call when it succeeds, the storage
  before the call when it reverts (the EVM undoes every write of a reverted call).
\<close>

definition transact :: "env \<Rightarrow> call \<Rightarrow> storage \<Rightarrow> storage" where
  "transact e c s = (case dispatch e c s of Inl _ \<Rightarrow> s | Inr (s', _) \<Rightarrow> s')"

text \<open>
  The states the contract can be in: the one its constructor leaves, and every state a
  transaction leads to from such a state. A transaction is in a block after the genesis
  block, whose timestamp is a positive Unix time.
\<close>

inductive reachable :: "storage \<Rightarrow> bool" where
  deployed: "reachable (GoldOracle_constructor e)"
| called: "reachable s \<Longrightarrow> 0 < block_timestamp e \<Longrightarrow> reachable (transact e c s)"

text \<open>Never written, or written with five positive prices at a positive time.\<close>

definition fresh :: "storage \<Rightarrow> bool" where
  "fresh s \<longleftrightarrow>
     pricePerGram s = 0 \<and> pricePerOunce s = 0 \<and> pricePerKarat24 s = 0 \<and>
     pricePerKarat22 s = 0 \<and> pricePerKarat18 s = 0 \<and> lastUpdated s = 0"

definition priced :: "storage \<Rightarrow> bool" where
  "priced s \<longleftrightarrow>
     0 < pricePerGram s \<and> 0 < pricePerOunce s \<and> 0 < pricePerKarat24 s \<and>
     0 < pricePerKarat22 s \<and> 0 < pricePerKarat18 s \<and> 0 < lastUpdated s"

definition prices_invariant :: "storage \<Rightarrow> bool" where
  "prices_invariant s \<longleftrightarrow> fresh s \<or> priced s"

section \<open>Scenarios\<close>

text \<open>
  Concrete surroundings to run the services in: a quote source that never answers, one
  that always answers with the price 0, one that fails twice before it answers with the
  quote 2037.50, one that always answers with that quote;
  and a ledger whose node is unreachable, one that refuses the gas estimate, and one
  that accepts the update. The ledger that can be read has never been written.
\<close>

definition world0 :: world where
  "world0 = \<lparr>requests = 0, timeouts = []\<rparr>"

definition net_down :: "nat \<Rightarrow> http_exchange" where
  "net_down n = No_response"

definition net_zero_quote :: "nat \<Rightarrow> http_exchange" where
  "net_zero_quote n = Http_response 200 ''OK'' (Data (Some 0))"

definition net_up :: "nat \<Rightarrow> http_exchange" where
  "net_up n = Http_response 200 ''OK'' (Data (Some 2037.5))"

definition net_fails_twice :: "nat \<Rightarrow> http_exchange" where
  "net_fails_twice n =
     (if n = 0 then No_response
      else if n = 1 then Http_response 503 ''Service Unavailable'' No_data
      else Http_response 200 ''OK'' (Data (Some 2037.5)))"

definition fresh_record :: "int PriceData" where
  "fresh_record =
     \<lparr>pricePerGram = 0, pricePerOunce = 0, pricePerKarat24 = 0, pricePerKarat22 = 0,
      pricePerKarat18 = 0, lastUpdated = 0\<rparr>"

definition chain_unreachable :: chain where
  "chain_unreachable =
     \<lparr>contract_getAllPrices = Inl (Error ''could not detect network''),
      contract_updatePrices_estimateGas = (\<lambda>prices. Inl (Error ''could not detect network'')),
      provider_getFeeData = Inl (Error ''could not detect network''),
      contract_updatePrices = (\<lambda>prices maxFee maxPriorityFee. Inl (Error ''could not detect network'')),
      tx_wait = (\<lambda>tx. Inl (Error ''could not detect network''))\<rparr>"

definition chain_refusing :: chain where
  "chain_refusing =
     \<lparr>contract_getAllPrices = Inr fresh_record,
      contract_updatePrices_estimateGas = (\<lambda>prices. Inl (Error ''execution reverted'')),
      provider_getFeeData = Inr \<lparr>maxFeePerGas = None, maxPriorityFeePerGas = None\<rparr>,
      contract_updatePrices = (\<lambda>prices maxFee maxPriorityFee. Inl (Error ''execution reverted'')),
      tx_wait = (\<lambda>tx. Inl (Error ''execution reverted''))\<rparr>"

definition chain_accepting :: chain where
  "chain_accepting =
     \<lparr>contract_getAllPrices = Inr fresh_record,
      contract_updatePrices_estimateGas = (\<lambda>prices. Inr 51234),
      provider_getFeeData = Inr \<lparr>maxFeePerGas = None, maxPriorityFeePerGas = None\<rparr>,
      contract_updatePrices = (\<lambda>prices maxFee maxPriorityFee. Inr ''0xabc''),
      tx_wait = (\<lambda>tx. Inr \<lparr>hash = tx, blockNumber = 52000000, gasUsed = 48211\<rparr>)\<rparr>"

text \<open>A ledger that already holds the prices of the quote 2037.50, up to 27 units.\<close>

definition chain_up_to_date :: chain where
  "chain_up_to_date =
     \<lparr>contract_getAllPrices =
        Inr \<lparr>pricePerGram = 6550709700, pricePerOunce = 203749999160,
             pricePerKarat24 = 6550709700, pricePerKarat22 = 6004817225,
             pricePerKarat18 = 4913032275, lastUpdated = 1705318200\<rparr>,
      contract_updatePrices_estimateGas = (\<lambda>prices. Inr 34134),
      provider_getFeeData = Inr \<lparr>maxFeePerGas = Some 120000000000,
                                  maxPriorityFeePerGas = Some 30000000000\<rparr>,
      contract_updatePrices = (\<lambda>prices maxFee maxPriorityFee. Inr ''0xdef''),
      tx_wait = (\<lambda>tx. Inr \<lparr>hash = tx, blockNumber = 52000100, gasUsed = 31111\<rparr>)\<rparr>"

section \<open>Rounding to the nearest double\<close>

lemma round_ties_even_lower: "\<lfloor>x\<rfloor> \<le> round_ties_even x"
  by (simp add: round_ties_even_def Let_def)

lemma round_ties_even_upper: "round_ties_even x \<le> \<lfloor>x\<rfloor> + 1"
  by (simp add: round_ties_even_def Let_def)

lemma round_ties_even_of_int [simp]: "round_ties_even (of_int n) = n"
  by (simp add: round_ties_even_def Let_def)

lemma round_ties_even_ge: "of_int n \<le> x \<Longrightarrow> n \<le> round_ties_even x"
proof -
  assume "of_int n \<le> x"
  then have "n \<le> \<lfloor>x\<rfloor>" by (simp add: le_floor_iff)
  with round_ties_even_lower [of x] show ?thesis by linarith
qed

lemma round_ties_even_le: "x \<le> of_int n \<Longrightarrow> round_ties_even x \<le> n"
proof (cases "x = of_int n")
  case True
  then show ?thesis by simp
next
  case False
  assume "x \<le> of_int n"
  with False have "x < of_int n" by simp
  then have "\<lfloor>x\<rfloor> < n" by (simp add: floor_less_iff)
  with round_ties_even_upper [of x] show ?thesis by linarith
qed

lemma round_ties_even_mono: "x \<le> y \<Longrightarrow> round_ties_even x \<le> round_ties_even y"
proof -
  assume xy: "x \<le> y"
  then have f: "\<lfloor>x\<rfloor> \<le> \<lfloor>y\<rfloor>" by (rule floor_mono)
  show ?thesis
  proof (cases "\<lfloor>x\<rfloor> = \<lfloor>y\<rfloor>")
    case True
    with xy show ?thesis
      by (auto simp: round_ties_even_def Let_def)
  next
    case False
    with f have "\<lfloor>x\<rfloor> + 1 \<le> \<lfloor>y\<rfloor>" by simp
    with round_ties_even_upper [of x] round_ties_even_lower [of y] show ?thesis by linarith
  qed
qed

lemma two_powr_int: "(2::real) powr real_of_int k = 2 powi k"
  by (rule powr_real_of_int') simp_all

lemma two_powr_int_Suc: "(2::real) powr (real_of_int k + 1) = 2 powi (k + 1)"
  using two_powr_int [of "k + 1"] by simp

lemma floor_log2_bounds:
  assumes "0 < a"
  shows "2 powi \<lfloor>log 2 a\<rfloor> \<le> a" and "a < 2 powi (\<lfloor>log 2 a\<rfloor> + 1)"
proof -
  have "2 powr real_of_int \<lfloor>log 2 a\<rfloor> \<le> a \<and> a < 2 powr real_of_int (\<lfloor>log 2 a\<rfloor> + 1)"
    using floor_log_eq_powr_iff [of a 2 "\<lfloor>log 2 a\<rfloor>"] assms by simp
  then show "2 powi \<lfloor>log 2 a\<rfloor> \<le> a" and "a < 2 powi (\<lfloor>log 2 a\<rfloor> + 1)"
    by (simp_all add: two_powr_int two_powr_int_Suc)
qed

lemma floor_log2_eqI:
  assumes "2 powi k \<le> a" and "a < 2 powi (k + 1)"
  shows "\<lfloor>log 2 a\<rfloor> = k"
proof -
  have "0 < (2::real) powi k" by (simp add: zero_less_power_int)
  with assms have "0 < a" by linarith
  then show ?thesis
    using floor_log_eq_powr_iff [of a 2 k] assms by (simp add: two_powr_int two_powr_int_Suc)
qed

lemma floor_log2_le:
  assumes "0 < a" and "a < 2 powi (k + 1)"
  shows "\<lfloor>log 2 a\<rfloor> \<le> k"
proof (rule ccontr)
  assume "\<not> \<lfloor>log 2 a\<rfloor> \<le> k"
  then have "k + 1 \<le> \<lfloor>log 2 a\<rfloor>" by simp
  then have "(2::real) powi (k + 1) \<le> 2 powi \<lfloor>log 2 a\<rfloor>"
    by (rule power_int_increasing) simp
  with floor_log2_bounds(1) [OF assms(1)] assms(2) show False by linarith
qed

text \<open>
  The binade by counting bits, for evaluation: for \<open>a \<ge> 1\<close> the logarithm of \<open>a\<close> has
  the floor of that of the integer part of \<open>a\<close>; for \<open>a < 1\<close> it is found from \<open>1 / a\<close>.
\<close>

lemma ilog2_ge_one:
  assumes "1 \<le> a"
  shows "\<lfloor>log 2 a\<rfloor> = bitlen \<lfloor>a\<rfloor> - 1"
proof (rule floor_log2_eqI)
  have n: "0 < \<lfloor>a\<rfloor>" using assms by simp
  from bitlen_bounds [OF n]
  have lo: "2 ^ nat (bitlen \<lfloor>a\<rfloor> - 1) \<le> \<lfloor>a\<rfloor>" and hi: "\<lfloor>a\<rfloor> < 2 ^ nat (bitlen \<lfloor>a\<rfloor>)"
    by simp_all
  have L: "0 < bitlen \<lfloor>a\<rfloor>"
    using n hi by (cases "bitlen \<lfloor>a\<rfloor> \<le> 0") simp_all
  have "(2::real) powi (bitlen \<lfloor>a\<rfloor> - 1) = of_int (2 ^ nat (bitlen \<lfloor>a\<rfloor> - 1))"
    using L by (simp add: power_int_def)
  also have "\<dots> \<le> of_int \<lfloor>a\<rfloor>" using lo by (simp only: of_int_le_iff)
  also have "\<dots> \<le> a" by simp
  finally show "2 powi (bitlen \<lfloor>a\<rfloor> - 1) \<le> a" .
  have "\<lfloor>a\<rfloor> + 1 \<le> 2 ^ nat (bitlen \<lfloor>a\<rfloor>)" using hi by simp
  then have "real_of_int (\<lfloor>a\<rfloor> + 1) \<le> of_int (2 ^ nat (bitlen \<lfloor>a\<rfloor>))"
    by (simp only: of_int_le_iff)
  moreover have "a < real_of_int (\<lfloor>a\<rfloor> + 1)" by simp
  moreover have "(2::real) powi (bitlen \<lfloor>a\<rfloor> - 1 + 1) = of_int (2 ^ nat (bitlen \<lfloor>a\<rfloor>))"
    using L by (simp add: power_int_def)
  ultimately show "a < 2 powi (bitlen \<lfloor>a\<rfloor> - 1 + 1)" by linarith
qed

lemma two_powi_neg:
  "0 \<le> k \<Longrightarrow> (2::real) powi (- k) = 1 / of_int (2 ^ nat k)"
  by (simp add: power_int_minus power_int_def field_simps)

lemma ilog2_less_one:
  assumes "0 < a" and "a < 1"
  shows "\<lfloor>log 2 a\<rfloor> = - bitlen (\<lceil>1 / a\<rceil> - 1)"
proof (rule floor_log2_eqI)
  let ?m = "\<lceil>1 / a\<rceil> - 1"
  have y: "1 < 1 / a" using assms by simp
  then have m: "0 < ?m" by (simp add: less_ceiling_iff)
  from bitlen_bounds [OF m]
  have lo: "2 ^ nat (bitlen ?m - 1) \<le> ?m" and hi: "?m < 2 ^ nat (bitlen ?m)"
    by simp_all
  have L: "0 < bitlen ?m"
    using m hi by (cases "bitlen ?m \<le> 0") simp_all
  have p: "(2::real) powi (- bitlen ?m) = 1 / of_int (2 ^ nat (bitlen ?m))"
    using L by (intro two_powi_neg) simp
  have "?m + 1 \<le> 2 ^ nat (bitlen ?m)" using hi by simp
  then have "real_of_int (?m + 1) \<le> of_int (2 ^ nat (bitlen ?m))"
    by (simp only: of_int_le_iff)
  moreover have "1 / a \<le> real_of_int (?m + 1)" by (simp add: le_of_int_ceiling)
  ultimately have "1 / a \<le> of_int (2 ^ nat (bitlen ?m))" by linarith
  then have "1 / of_int (2 ^ nat (bitlen ?m)) \<le> a"
    using assms(1) by (simp add: field_simps)
  then show "2 powi (- bitlen ?m) \<le> a" by (simp only: p)
  have q: "(2::real) powi (- bitlen ?m + 1) = 1 / of_int (2 ^ nat (bitlen ?m - 1))"
    using L two_powi_neg [of "bitlen ?m - 1"] by simp
  have "real_of_int (2 ^ nat (bitlen ?m - 1)) \<le> of_int ?m" using lo by (simp only: of_int_le_iff)
  moreover have "real_of_int ?m < 1 / a" using ceiling_correct [of "1 / a"] by simp
  ultimately have "real_of_int (2 ^ nat (bitlen ?m - 1)) < 1 / a" by linarith
  then have "a < 1 / of_int (2 ^ nat (bitlen ?m - 1))"
    using assms(1) by (simp add: field_simps)
  then show "a < 2 powi (- bitlen ?m + 1)" by (simp only: q)
qed

lemma binade_code [code]:
  "binade x =
     max (- 1022) (if 1 \<le> \<bar>x\<bar> then bitlen \<lfloor>\<bar>x\<bar>\<rfloor> - 1 else - bitlen (\<lceil>1 / \<bar>x\<bar>\<rceil> - 1))"
proof (cases "x = 0")
  case True
  then show ?thesis by (simp add: binade_def bitlen_def floorlog_def log_def)
next
  case False
  then show ?thesis
    by (simp add: binade_def ilog2_ge_one ilog2_less_one)
qed

lemma binade_ge: "- 1022 \<le> binade x"
  by (simp add: binade_def)

lemma binade_upper:
  assumes "x \<noteq> 0"
  shows "\<bar>x\<bar> < 2 powi (binade x + 1)"
proof -
  have "\<bar>x\<bar> < 2 powi (\<lfloor>log 2 \<bar>x\<bar>\<rfloor> + 1)"
    using assms by (simp add: floor_log2_bounds)
  also have "\<dots> \<le> 2 powi (binade x + 1)"
    by (rule power_int_increasing) (simp_all add: binade_def)
  finally show ?thesis .
qed

lemma binade_lower:
  assumes "x \<noteq> 0" and "- 1022 < binade x"
  shows "2 powi binade x \<le> \<bar>x\<bar>"
proof -
  from assms(2) have "binade x = \<lfloor>log 2 \<bar>x\<bar>\<rfloor>"
    by (simp add: binade_def max_def split: if_splits)
  then show ?thesis using assms(1) by (simp add: floor_log2_bounds)
qed

lemma binade_eqI:
  assumes "x \<noteq> 0" and "- 1022 \<le> e" and "e = - 1022 \<or> 2 powi e \<le> \<bar>x\<bar>"
    and "\<bar>x\<bar> < 2 powi (e + 1)"
  shows "binade x = e"
proof -
  have le: "\<lfloor>log 2 \<bar>x\<bar>\<rfloor> \<le> e"
    using assms(1,4) by (simp add: floor_log2_le)
  show ?thesis
  proof (cases "2 powi e \<le> \<bar>x\<bar>")
    case True
    then have "\<lfloor>log 2 \<bar>x\<bar>\<rfloor> = e" using assms(4) by (rule floor_log2_eqI)
    with assms(2) show ?thesis by (simp add: binade_def)
  next
    case False
    with assms(3) have "e = - 1022" by simp
    with le show ?thesis by (simp add: binade_def)
  qed
qed

lemma binade_mono:
  assumes "x \<noteq> 0" and "\<bar>x\<bar> \<le> \<bar>y\<bar>"
  shows "binade x \<le> binade y"
proof -
  have "log 2 \<bar>x\<bar> \<le> log 2 \<bar>y\<bar>"
    using assms by (intro log_mono) simp_all
  then have "\<lfloor>log 2 \<bar>x\<bar>\<rfloor> \<le> \<lfloor>log 2 \<bar>y\<bar>\<rfloor>" by (rule floor_mono)
  then show ?thesis by (simp add: binade_def)
qed

lemma ulp_pos: "0 < ulp x"
  by (simp add: ulp_def zero_less_power_int)

lemma pow2_scale:
  "4503599627370496 * (2::real) powi (k - 52) = 2 powi k"
  "9007199254740992 * (2::real) powi (k - 52) = 2 powi (k + 1)"
  by (simp_all add: power_int_diff power_int_add)

lemma ulp_scale:
  "4503599627370496 * ulp x = 2 powi binade x"
  "9007199254740992 * ulp x = 2 powi (binade x + 1)"
  by (simp_all add: ulp_def pow2_scale)

lemma round_ties_even_numeral [simp]: "round_ties_even (numeral n) = numeral n"
  using round_ties_even_of_int [of "numeral n"] by simp

lemma round_ties_even_nearest: "\<bar>of_int (round_ties_even x) - x\<bar> \<le> 1 / 2"
proof -
  have "of_int \<lfloor>x\<rfloor> \<le> x" and "x < of_int \<lfloor>x\<rfloor> + 1" by linarith+
  then show ?thesis by (auto simp: round_ties_even_def Let_def)
qed

text \<open>\<open>double x\<close> is a multiple of the spacing at \<open>x\<close>, at most half a spacing away.\<close>

lemma double_nearest: "\<bar>double x - x\<bar> \<le> ulp x / 2"
proof (cases "x = 0")
  case True
  then show ?thesis using ulp_pos [of x] by (simp add: double_def)
next
  case False
  have "\<bar>double x - x\<bar> = \<bar>of_int (round_ties_even (x / ulp x)) - x / ulp x\<bar> * ulp x"
    using False ulp_pos [of x] by (simp add: double_def abs_mult [symmetric] field_simps)
  also have "\<dots> \<le> 1 / 2 * ulp x"
    using round_ties_even_nearest [of "x / ulp x"] ulp_pos [of x]
    by (intro mult_right_mono) simp_all
  finally show ?thesis by simp
qed

lemma double_zero [simp]: "double 0 = 0"
  by (simp add: double_def)

lemma double_nonneg: "0 \<le> x \<Longrightarrow> 0 \<le> double x"
proof -
  assume "0 \<le> x"
  then have "of_int 0 \<le> x / ulp x" using ulp_pos [of x] by simp
  then have "0 \<le> round_ties_even (x / ulp x)" by (rule round_ties_even_ge)
  then show ?thesis using ulp_pos [of x] by (simp add: double_def)
qed

lemma double_nonpos: "x \<le> 0 \<Longrightarrow> double x \<le> 0"
proof -
  assume "x \<le> 0"
  then have "x / ulp x \<le> of_int 0" using ulp_pos [of x] by (simp add: divide_nonpos_pos)
  then have "round_ties_even (x / ulp x) \<le> 0" by (rule round_ties_even_le)
  then show ?thesis using ulp_pos [of x] by (simp add: double_def mult_nonpos_nonneg)
qed

lemma double_upper:
  assumes "0 < x"
  shows "double x \<le> 2 powi (binade x + 1)"
proof -
  have "x < 9007199254740992 * ulp x"
    using binade_upper [of x] assms by (simp add: ulp_scale)
  then have "x / ulp x \<le> of_int 9007199254740992"
    using ulp_pos [of x] by (simp add: pos_divide_le_eq)
  then have "round_ties_even (x / ulp x) \<le> 9007199254740992" by (rule round_ties_even_le)
  then have "real_of_int (round_ties_even (x / ulp x)) \<le> 9007199254740992"
    by linarith
  then have "real_of_int (round_ties_even (x / ulp x)) * ulp x \<le> 9007199254740992 * ulp x"
    using ulp_pos [of x] by (simp add: mult_right_mono)
  then show ?thesis using assms by (simp add: double_def ulp_scale)
qed

lemma double_lower:
  assumes "0 < x" and "- 1022 < binade x"
  shows "2 powi binade x \<le> double x"
proof -
  have "4503599627370496 * ulp x \<le> x"
    using binade_lower [of x] assms by (simp add: ulp_scale)
  then have "of_int 4503599627370496 \<le> x / ulp x"
    using ulp_pos [of x] by (simp add: pos_le_divide_eq)
  then have "4503599627370496 \<le> round_ties_even (x / ulp x)" by (rule round_ties_even_ge)
  then have "4503599627370496 \<le> real_of_int (round_ties_even (x / ulp x))"
    by linarith
  then have "4503599627370496 * ulp x \<le> real_of_int (round_ties_even (x / ulp x)) * ulp x"
    using ulp_pos [of x] by (simp add: mult_right_mono)
  then show ?thesis using assms by (simp add: double_def ulp_scale)
qed

lemma double_mono_pos:
  assumes "0 < x" and "x \<le> y"
  shows "double x \<le> double y"
proof -
  from assms have y: "0 < y" by simp
  have b: "binade x \<le> binade y"
    using assms by (intro binade_mono) simp_all
  show ?thesis
  proof (cases "binade x = binade y")
    case True
    then have u: "ulp x = ulp y" by (simp add: ulp_def)
    have "x / ulp y \<le> y / ulp y"
      using assms(2) ulp_pos [of y] by (simp add: divide_right_mono)
    then have "round_ties_even (x / ulp y) \<le> round_ties_even (y / ulp y)"
      by (rule round_ties_even_mono)
    then have "real_of_int (round_ties_even (x / ulp y)) * ulp y
                 \<le> real_of_int (round_ties_even (y / ulp y)) * ulp y"
      using ulp_pos [of y] by (simp add: mult_right_mono)
    then show ?thesis using assms(1) y u by (simp add: double_def)
  next
    case False
    with b have lt: "binade x + 1 \<le> binade y" by simp
    with binade_ge [of x] have "- 1022 < binade y" by linarith
    then have "2 powi binade y \<le> double y" using y by (intro double_lower)
    moreover have "(2::real) powi (binade x + 1) \<le> 2 powi binade y"
      using lt by (rule power_int_increasing) simp
    moreover have "double x \<le> 2 powi (binade x + 1)" using assms(1) by (rule double_upper)
    ultimately show ?thesis by linarith
  qed
qed

lemma double_mono_nonneg:
  assumes "0 \<le> x" and "x \<le> y"
  shows "double x \<le> double y"
proof (cases "x = 0")
  case True
  with assms show ?thesis by (simp add: double_nonneg)
next
  case False
  with assms show ?thesis by (intro double_mono_pos) simp_all
qed

lemma double_eqI:
  assumes "x \<noteq> 0" and "- 1022 \<le> e" and "e = - 1022 \<or> 2 powi e \<le> \<bar>x\<bar>"
    and "\<bar>x\<bar> < 2 powi (e + 1)"
  shows "double x = of_int (round_ties_even (x / 2 powi (e - 52))) * 2 powi (e - 52)"
  using assms by (simp add: double_def ulp_def binade_eqI)

lemma double_idem_pos:
  assumes "0 < x"
  shows "double (double x) = double x"
proof -
  define m where "m = round_ties_even (x / ulp x)"
  have d: "double x = of_int m * ulp x"
    using assms by (simp add: double_def m_def)
  have m0: "0 \<le> m"
    using double_nonneg [of x] assms ulp_pos [of x] by (simp add: d zero_le_mult_iff)
  show ?thesis
  proof (cases "m = 0")
    case True
    then show ?thesis by (simp add: d)
  next
    case False
    with m0 have mpos: "0 < m" by simp
    then have dpos: "0 < double x" using ulp_pos [of x] by (simp add: d)
    have up: "double x \<le> 2 powi (binade x + 1)" using assms by (rule double_upper)
    show ?thesis
    proof (cases "double x = 2 powi (binade x + 1)")
      case True
      have "double (2 powi (binade x + 1)) =
              of_int (round_ties_even (2 powi (binade x + 1) / 2 powi (binade x + 1 - 52)))
                * 2 powi (binade x + 1 - 52)"
      proof (rule double_eqI)
        show "(2::real) powi (binade x + 1) \<noteq> 0" by simp
        show "- 1022 \<le> binade x + 1" using binade_ge [of x] by simp
        show "binade x + 1 = - 1022 \<or> 2 powi (binade x + 1) \<le> \<bar>(2::real) powi (binade x + 1)\<bar>"
          by simp
        show "\<bar>(2::real) powi (binade x + 1)\<bar> < 2 powi (binade x + 1 + 1)"
          by (simp add: power_int_strict_increasing)
      qed
      moreover have "(2::real) powi (binade x + 1) / 2 powi (binade x + 1 - 52) = of_int 4503599627370496"
        using pow2_scale(1) [of "binade x + 1"] by (simp add: field_simps)
      ultimately have "double (2 powi (binade x + 1)) = 4503599627370496 * 2 powi (binade x + 1 - 52)"
        by (simp only: round_ties_even_numeral of_int_numeral)
      also have "\<dots> = 2 powi (binade x + 1)"
        by (rule pow2_scale(1))
      finally show ?thesis using True by simp
    next
      case False
      with up have lt: "\<bar>double x\<bar> < 2 powi (binade x + 1)" using dpos by simp
      have lo: "binade x = - 1022 \<or> 2 powi binade x \<le> \<bar>double x\<bar>"
        using double_lower [of x] assms binade_ge [of x] dpos by (cases "binade x = - 1022") simp_all
      have "binade (double x) = binade x"
        using dpos binade_ge [of x] lo lt by (intro binade_eqI) simp_all
      then have u: "ulp (double x) = ulp x" by (simp add: ulp_def)
      have "double x / ulp x = of_int m"
        using ulp_pos [of x] by (simp add: d)
      then have r: "round_ties_even (double x / ulp x) = m"
        by (simp only: round_ties_even_of_int)
      have "double (double x) =
              of_int (round_ties_even (double x / ulp (double x))) * ulp (double x)"
        using dpos by (simp add: double_def [of "double x"])
      also have "\<dots> = of_int m * ulp x" by (simp only: u r)
      also have "\<dots> = double x" by (simp only: d)
      finally show ?thesis .
    qed
  qed
qed

lemma double_idem: "0 \<le> x \<Longrightarrow> double (double x) = double x"
  by (cases "x = 0") (simp_all add: double_idem_pos)

lemma double_one: "double 1 = 1"
  using double_eqI [of 1 0] by (simp add: power_int_minus)

lemma round_ties_even_le_twice:
  assumes "0 \<le> t"
  shows "of_int (round_ties_even t) \<le> 2 * t"
proof (cases "t < 1 / 2")
  case True
  with assms have "\<lfloor>t\<rfloor> = 0" by (simp add: floor_eq_iff)
  with True show ?thesis using assms by (simp add: round_ties_even_def)
next
  case False
  with round_ties_even_nearest [of t] show ?thesis by linarith
qed

lemma double_le_twice:
  assumes "0 \<le> x"
  shows "double x \<le> 2 * x"
proof (cases "x = 0")
  case True
  then show ?thesis by simp
next
  case False
  have "0 \<le> x / ulp x" using assms ulp_pos [of x] by simp
  then have "of_int (round_ties_even (x / ulp x)) \<le> 2 * (x / ulp x)"
    by (rule round_ties_even_le_twice)
  then have "of_int (round_ties_even (x / ulp x)) * ulp x \<le> 2 * (x / ulp x) * ulp x"
    using ulp_pos [of x] by (intro mult_right_mono) simp_all
  then show ?thesis using False ulp_pos [of x] by (simp add: double_def)
qed

section \<open>Values of calculatePrices\<close>

text \<open>
  A double operation on given numbers is evaluated by naming the binade of the exact
  result (\<open>double_eqI\<close>); the rest is arithmetic on numerals.
\<close>

lemmas double_eval = power_int_minus round_ties_even_def

lemma GRAMS_PER_OUNCE_value: "GRAMS_PER_OUNCE = 8754856938119889 / 281474976710656"
  unfolding GRAMS_PER_OUNCE_def using double_eqI [of "31.1035" 4] by (simp add: double_eval)

lemma karat22_factor: "js_div 22 24 = 8256599316845909 / 9007199254740992"
  unfolding js_div_def using double_eqI [of "22 / 24" "- 1"] by (simp add: double_eval)

lemma karat18_factor: "js_div 18 24 = 3 / 4"
  unfolding js_div_def using double_eqI [of "18 / 24" "- 1"] by (simp add: double_eval)

lemma perGram_2037_50: "js_div (4075 / 2) GRAMS_PER_OUNCE = 4609652169755507 / 70368744177664"
  unfolding js_div_def GRAMS_PER_OUNCE_value
  using double_eqI [of "(4075 / 2) / (8754856938119889 / 281474976710656)" "6"] by (simp add: double_eval)

lemma perKarat22_2037_50: "js_mul (4609652169755507 / 70368744177664) (8256599316845909 / 9007199254740992) = 1056378622235637 / 17592186044416"
  unfolding js_mul_def
  using double_eqI [of "(4609652169755507 / 70368744177664) * (8256599316845909 / 9007199254740992)" "5"] by (simp add: double_eval)

lemma perKarat18_2037_50: "js_mul (4609652169755507 / 70368744177664) (3 / 4) = 1728619563658315 / 35184372088832"
  unfolding js_mul_def
  using double_eqI [of "(4609652169755507 / 70368744177664) * (3 / 4)" "5"] by (simp add: double_eval)

lemma scaled_perGram_2037_50: "js_mul (4609652169755507 / 70368744177664) 100000000 = 6868917002909641 / 1048576"
  unfolding js_mul_def
  using double_eqI [of "(4609652169755507 / 70368744177664) * 100000000" "32"] by (simp add: double_eval)

lemma scaled_perOunce_2037_50: "js_mul (4075 / 2) 100000000 = 203750000000"
  unfolding js_mul_def
  using double_eqI [of "(4075 / 2) * 100000000" "37"] by (simp add: double_eval)

lemma scaled_perKarat22_2037_50: "js_mul (1056378622235637 / 17592186044416) 100000000 = 6296507252667171 / 1048576"
  unfolding js_mul_def
  using double_eqI [of "(1056378622235637 / 17592186044416) * 100000000" "32"] by (simp add: double_eval)

lemma scaled_perKarat18_2037_50: "js_mul (1728619563658315 / 35184372088832) 100000000 = 2575843876091115 / 524288"
  unfolding js_mul_def
  using double_eqI [of "(1728619563658315 / 35184372088832) * 100000000" "32"] by (simp add: double_eval)

lemma calculatePrices_2037_50:
  "calculatePrices \<lparr>price = 4075 / 2\<rparr> =
     Inr \<lparr>pricePerGram = 6550709727, pricePerOunce = 203750000000, pricePerKarat24 = 6550709727,
          pricePerKarat22 = 6004817249, pricePerKarat18 = 4913032295\<rparr>"
  by (simp add: calculatePrices_def Let_def Math_floor_def karat22_factor karat18_factor
      perGram_2037_50 perKarat22_2037_50 perKarat18_2037_50 scaled_perGram_2037_50 scaled_perOunce_2037_50
      scaled_perKarat22_2037_50 scaled_perKarat18_2037_50)

lemma perGram_100: "js_div 100 GRAMS_PER_OUNCE = 3619849556617821 / 1125899906842624"
  unfolding js_div_def GRAMS_PER_OUNCE_value
  using double_eqI [of "100 / (8754856938119889 / 281474976710656)" "1"] by (simp add: double_eval)

lemma perKarat22_100: "js_mul (3619849556617821 / 1125899906842624) (8256599316845909 / 9007199254740992) = 3318195426899669 / 1125899906842624"
  unfolding js_mul_def
  using double_eqI [of "(3619849556617821 / 1125899906842624) * (8256599316845909 / 9007199254740992)" "1"] by (simp add: double_eval)

lemma perKarat18_100: "js_mul (3619849556617821 / 1125899906842624) (3 / 4) = 1357443583731683 / 562949953421312"
  unfolding js_mul_def
  using double_eqI [of "(3619849556617821 / 1125899906842624) * (3 / 4)" "1"] by (simp add: double_eval)

lemma scaled_perGram_100: "js_mul (3619849556617821 / 1125899906842624) 100000000 = 1348499043516003 / 4194304"
  unfolding js_mul_def
  using double_eqI [of "(3619849556617821 / 1125899906842624) * 100000000" "28"] by (simp add: double_eval)

lemma scaled_perOunce_100: "js_mul 100 100000000 = 10000000000"
  unfolding js_mul_def
  using double_eqI [of "100 * 100000000" "33"] by (simp add: double_eval)

lemma scaled_perKarat22_100: "js_mul (3318195426899669 / 1125899906842624) 100000000 = 4944496492892011 / 16777216"
  unfolding js_mul_def
  using double_eqI [of "(3318195426899669 / 1125899906842624) * 100000000" "28"] by (simp add: double_eval)

lemma scaled_perKarat18_100: "js_mul (1357443583731683 / 562949953421312) 100000000 = 8090994261096019 / 33554432"
  unfolding js_mul_def
  using double_eqI [of "(1357443583731683 / 562949953421312) * 100000000" "27"] by (simp add: double_eval)

lemma calculatePrices_100:
  "calculatePrices \<lparr>price = 100\<rparr> =
     Inr \<lparr>pricePerGram = 321507225, pricePerOunce = 10000000000, pricePerKarat24 = 321507225,
          pricePerKarat22 = 294714957, pricePerKarat18 = 241130419\<rparr>"
  by (simp add: calculatePrices_def Let_def Math_floor_def karat22_factor karat18_factor
      perGram_100 perKarat22_100 perKarat18_100 scaled_perGram_100 scaled_perOunce_100
      scaled_perKarat22_100 scaled_perKarat18_100)

lemma perGram_minus_2037_50: "js_div (- (4075 / 2)) GRAMS_PER_OUNCE = - (4609652169755507 / 70368744177664)"
  unfolding js_div_def GRAMS_PER_OUNCE_value
  using double_eqI [of "(- (4075 / 2)) / (8754856938119889 / 281474976710656)" "6"] by (simp add: double_eval)

lemma perKarat22_minus_2037_50: "js_mul (- (4609652169755507 / 70368744177664)) (8256599316845909 / 9007199254740992) = - (1056378622235637 / 17592186044416)"
  unfolding js_mul_def
  using double_eqI [of "(- (4609652169755507 / 70368744177664)) * (8256599316845909 / 9007199254740992)" "5"] by (simp add: double_eval)

lemma perKarat18_minus_2037_50: "js_mul (- (4609652169755507 / 70368744177664)) (3 / 4) = - (1728619563658315 / 35184372088832)"
  unfolding js_mul_def
  using double_eqI [of "(- (4609652169755507 / 70368744177664)) * (3 / 4)" "5"] by (simp add: double_eval)

lemma scaled_perGram_minus_2037_50: "js_mul (- (4609652169755507 / 70368744177664)) 100000000 = - (6868917002909641 / 1048576)"
  unfolding js_mul_def
  using double_eqI [of "(- (4609652169755507 / 70368744177664)) * 100000000" "32"] by (simp add: double_eval)

lemma scaled_perOunce_minus_2037_50: "js_mul (- (4075 / 2)) 100000000 = - 203750000000"
  unfolding js_mul_def
  using double_eqI [of "(- (4075 / 2)) * 100000000" "37"] by (simp add: double_eval)

lemma scaled_perKarat22_minus_2037_50: "js_mul (- (1056378622235637 / 17592186044416)) 100000000 = - (6296507252667171 / 1048576)"
  unfolding js_mul_def
  using double_eqI [of "(- (1056378622235637 / 17592186044416)) * 100000000" "32"] by (simp add: double_eval)

lemma scaled_perKarat18_minus_2037_50: "js_mul (- (1728619563658315 / 35184372088832)) 100000000 = - (2575843876091115 / 524288)"
  unfolding js_mul_def
  using double_eqI [of "(- (1728619563658315 / 35184372088832)) * 100000000" "32"] by (simp add: double_eval)

lemma calculatePrices_minus_2037_50:
  "calculatePrices \<lparr>price = - (4075 / 2)\<rparr> =
     Inr \<lparr>pricePerGram = - 6550709728, pricePerOunce = - 203750000000, pricePerKarat24 = - 6550709728,
          pricePerKarat22 = - 6004817250, pricePerKarat18 = - 4913032296\<rparr>"
  by (simp add: calculatePrices_def Let_def Math_floor_def karat22_factor karat18_factor
      perGram_minus_2037_50 perKarat22_minus_2037_50 perKarat18_minus_2037_50 scaled_perGram_minus_2037_50 scaled_perOunce_minus_2037_50
      scaled_perKarat22_minus_2037_50 scaled_perKarat18_minus_2037_50)

text \<open>
  The largest double is a double, and rounding stays below it. The product of the double
  \<open>2^1000\<close> and \<open>10^8\<close> is beyond it: there JavaScript returns \<open>Infinity\<close>.
\<close>

lemma double_MAX_VALUE: "double MAX_VALUE = MAX_VALUE"
  unfolding MAX_VALUE_def
  using double_eqI [of "2 ^ 1024 - 2 ^ 971" 1023] by (simp add: double_eval)

lemma double_le_MAX_VALUE:
  assumes "0 \<le> x" and "x \<le> MAX_VALUE"
  shows "double x \<le> MAX_VALUE"
  using double_mono_nonneg [OF assms] by (simp add: double_MAX_VALUE)

lemma js_mul_beyond_MAX_VALUE: "MAX_VALUE < js_mul (2 ^ 1000) 100000000"
  unfolding js_mul_def MAX_VALUE_def
  using double_eqI [of "2 ^ 1000 * 100000000" 1026] by (simp add: double_eval)

section \<open>Properties of calculatePrices\<close>

lemma calculatePrices_returns:
  "\<exists>ps. calculatePrices d = Inr ps"
  by (simp add: calculatePrices_def Let_def)

lemma scaled_floor_mono:
  assumes "0 \<le> x" and "x \<le> y"
  shows "Math_floor (js_mul x 100000000) \<le> Math_floor (js_mul y 100000000)"
  unfolding Math_floor_def js_mul_def
  using assms by (intro floor_mono double_mono_nonneg) simp_all

lemma scaled_floor_nonneg:
  assumes "0 \<le> x"
  shows "0 \<le> Math_floor (js_mul x 100000000)"
  unfolding Math_floor_def js_mul_def
  using assms by (simp add: double_nonneg)

lemma scaled_floor_nonpos:
  assumes "x \<le> 0"
  shows "Math_floor (js_mul x 100000000) \<le> 0"
proof -
  have "double (x * 100000000) \<le> 0" using assms by (intro double_nonpos) simp
  then have "\<lfloor>double (x * 100000000)\<rfloor> \<le> \<lfloor>0::real\<rfloor>" by (rule floor_mono)
  then show ?thesis by (simp add: Math_floor_def js_mul_def)
qed

lemma GRAMS_PER_OUNCE_pos: "0 < GRAMS_PER_OUNCE"
  by (simp add: GRAMS_PER_OUNCE_value)

lemma perGram_nonneg: "0 \<le> p \<Longrightarrow> 0 \<le> js_div p GRAMS_PER_OUNCE"
  unfolding js_div_def using GRAMS_PER_OUNCE_pos by (intro double_nonneg) simp

lemma perGram_nonpos: "p \<le> 0 \<Longrightarrow> js_div p GRAMS_PER_OUNCE \<le> 0"
  unfolding js_div_def using GRAMS_PER_OUNCE_pos by (intro double_nonpos) (simp add: divide_nonpos_pos)

lemma perGram_double: "0 \<le> p \<Longrightarrow> double (js_div p GRAMS_PER_OUNCE) = js_div p GRAMS_PER_OUNCE"
  unfolding js_div_def using GRAMS_PER_OUNCE_pos by (intro double_idem) simp

lemma karat_chain:
  assumes "0 \<le> g" and "double g = g"
  shows "0 \<le> js_mul g (js_div 18 24)"
    and "js_mul g (js_div 18 24) \<le> js_mul g (js_div 22 24)"
    and "js_mul g (js_div 22 24) \<le> g"
proof -
  show "0 \<le> js_mul g (js_div 18 24)"
    unfolding js_mul_def karat18_factor using assms(1) by (intro double_nonneg) simp
  have "g * (3 / 4) \<le> g * (8256599316845909 / 9007199254740992)"
    using assms(1) by (intro mult_left_mono) simp_all
  then show "js_mul g (js_div 18 24) \<le> js_mul g (js_div 22 24)"
    unfolding js_mul_def karat18_factor karat22_factor
    using assms(1) by (intro double_mono_nonneg) simp_all
  have "g * (8256599316845909 / 9007199254740992) \<le> g * 1"
    using assms(1) by (intro mult_left_mono) simp_all
  then have "double (g * (8256599316845909 / 9007199254740992)) \<le> double g"
    using assms(1) by (intro double_mono_nonneg) simp_all
  then show "js_mul g (js_div 22 24) \<le> g"
    unfolding js_mul_def karat22_factor using assms(2) by simp
qed

text \<open>
  Claim C7. For every positive spot price, \<open>calculatePrices\<close> returns prices with
  \<open>pricePerKarat24 = pricePerGram\<close>, \<open>pricePerKarat22 \<le> pricePerKarat24\<close> and
  \<open>pricePerKarat18 \<le> pricePerKarat22\<close>. The proof is for double arithmetic: rounding
  to the nearest double is monotone and leaves a double as it is.
\<close>

theorem calculatePrices_karat_order:
  assumes "0 < price d"
  shows "\<exists>ps. calculatePrices d = Inr ps \<and>
           pricePerKarat24 ps = pricePerGram ps \<and>
           pricePerKarat22 ps \<le> pricePerKarat24 ps \<and>
           pricePerKarat18 ps \<le> pricePerKarat22 ps"
proof -
  define g where "g = js_div (price d) GRAMS_PER_OUNCE"
  have g0: "0 \<le> g" and gd: "double g = g"
    using assms by (simp_all add: g_def perGram_nonneg perGram_double)
  note c = karat_chain [OF g0 gd]
  have "Math_floor (js_mul (js_mul g (js_div 22 24)) 100000000) \<le> Math_floor (js_mul g 100000000)"
    using c by (intro scaled_floor_mono) simp_all
  moreover have "Math_floor (js_mul (js_mul g (js_div 18 24)) 100000000)
                   \<le> Math_floor (js_mul (js_mul g (js_div 22 24)) 100000000)"
    using c by (intro scaled_floor_mono) simp_all
  ultimately show ?thesis
    by (simp add: calculatePrices_def Let_def g_def)
qed

theorem calculatePrices_karat_order_witness:
  "0 < price \<lparr>price = 2037.5\<rparr> \<and>
   (\<exists>ps. calculatePrices \<lparr>price = 2037.5\<rparr> = Inr ps \<and>
      pricePerGram ps = 6550709727 \<and> pricePerKarat24 ps = 6550709727 \<and>
      pricePerKarat22 ps = 6004817249 \<and> pricePerKarat18 ps = 4913032295 \<and>
      pricePerKarat24 ps = pricePerGram ps \<and>
      pricePerKarat22 ps \<le> pricePerKarat24 ps \<and>
      pricePerKarat18 ps \<le> pricePerKarat22 ps)"
  using calculatePrices_karat_order [of "\<lparr>price = 2037.5\<rparr>"]
  by (simp add: calculatePrices_2037_50)

text \<open>
  Claim C2 says that \<open>pricePerKarat22\<close> is the floor of \<open>pricePerKarat24 * 22 / 24\<close> and
  \<open>pricePerKarat18\<close> that of \<open>pricePerKarat24 * 18 / 24\<close>. The code multiplies the
  per-gram price by the karat factor before it scales and floors: at the spot price 100
  it returns 294714957 and 241130419, where the floored 24K price 321507225 gives
  294714956 and 241130418.
\<close>

theorem calculatePrices_karat22_counterexample:
  "calculatePrices \<lparr>price = 100\<rparr> =
     Inr \<lparr>pricePerGram = 321507225, pricePerOunce = 10000000000,
          pricePerKarat24 = 321507225, pricePerKarat22 = 294714957,
          pricePerKarat18 = 241130419\<rparr> \<and>
   (294714957::int) \<noteq> \<lfloor>real_of_int 321507225 * 22 / 24\<rfloor> \<and>
   (241130419::int) \<noteq> \<lfloor>real_of_int 321507225 * 18 / 24\<rfloor>"
  by (simp add: calculatePrices_100)

lemma perGram_le_price:
  assumes "0 \<le> p"
  shows "js_div p GRAMS_PER_OUNCE \<le> p"
proof -
  have "double (p / GRAMS_PER_OUNCE) \<le> 2 * (p / GRAMS_PER_OUNCE)"
    using assms GRAMS_PER_OUNCE_pos by (intro double_le_twice) simp
  also have "\<dots> \<le> p"
    using assms by (simp add: GRAMS_PER_OUNCE_value field_simps)
  finally show ?thesis by (simp add: js_div_def)
qed

lemma scaled_le_MAX_VALUE:
  assumes "0 \<le> x" and "x \<le> p" and "p * 100000000 \<le> MAX_VALUE"
  shows "js_mul x 100000000 \<le> MAX_VALUE"
  unfolding js_mul_def using assms by (intro double_le_MAX_VALUE) simp_all

text \<open>
  Claim C2, amended. For every positive spot price \<open>p\<close> with \<open>p * 10^8\<close> at most
  \<open>Number.MAX_VALUE\<close> (about \<open>1.797 * 10^308\<close>), no operation of \<open>calculatePrices\<close>
  overflows, and it returns five non-negative integers: \<open>pricePerGram\<close> is the floor of
  \<open>p / 31.1035 * 10^8\<close>, \<open>pricePerOunce\<close> the floor of \<open>p * 10^8\<close>, \<open>pricePerKarat24\<close>
  equals \<open>pricePerGram\<close>, \<open>pricePerKarat22\<close> is the floor of
  \<open>p / 31.1035 * (22 / 24) * 10^8\<close> and \<open>pricePerKarat18\<close> the floor of
  \<open>p / 31.1035 * (18 / 24) * 10^8\<close>, each expression evaluated from left to right in
  double arithmetic (\<open>js_div\<close>, \<open>js_mul\<close>). The first seven conjuncts say that the
  result of each division and multiplication is at most \<open>MAX_VALUE\<close>, so that the value
  of the model is the value that JavaScript computes. For the spot price 2037.50 the
  witness below gives \<open>pricePerOunce = 203750000000\<close> and \<open>pricePerGram = 6550709727\<close>,
  which is the floor of \<open>203750000000 / 31.1035\<close>. Beyond the bound the code returns
  \<open>Infinity\<close>, which is not an integer (\<open>js_mul_beyond_MAX_VALUE\<close>).
\<close>

theorem calculatePrices_formulas:
  assumes "0 < price d" and "price d * 100000000 \<le> MAX_VALUE"
  shows "js_div (price d) GRAMS_PER_OUNCE \<le> MAX_VALUE \<and>
         js_mul (js_div (price d) GRAMS_PER_OUNCE) (js_div 22 24) \<le> MAX_VALUE \<and>
         js_mul (js_div (price d) GRAMS_PER_OUNCE) (js_div 18 24) \<le> MAX_VALUE \<and>
         js_mul (js_div (price d) GRAMS_PER_OUNCE) 100000000 \<le> MAX_VALUE \<and>
         js_mul (price d) 100000000 \<le> MAX_VALUE \<and>
         js_mul (js_mul (js_div (price d) GRAMS_PER_OUNCE) (js_div 22 24)) 100000000 \<le> MAX_VALUE \<and>
         js_mul (js_mul (js_div (price d) GRAMS_PER_OUNCE) (js_div 18 24)) 100000000 \<le> MAX_VALUE \<and>
         (\<exists>ps. calculatePrices d = Inr ps \<and>
           0 \<le> pricePerGram ps \<and> 0 \<le> pricePerOunce ps \<and> 0 \<le> pricePerKarat24 ps \<and>
           0 \<le> pricePerKarat22 ps \<and> 0 \<le> pricePerKarat18 ps \<and>
           pricePerGram ps = \<lfloor>js_mul (js_div (price d) GRAMS_PER_OUNCE) 100000000\<rfloor> \<and>
           pricePerOunce ps = \<lfloor>js_mul (price d) 100000000\<rfloor> \<and>
           pricePerKarat24 ps = pricePerGram ps \<and>
           pricePerKarat22 ps =
             \<lfloor>js_mul (js_mul (js_div (price d) GRAMS_PER_OUNCE) (js_div 22 24)) 100000000\<rfloor> \<and>
           pricePerKarat18 ps =
             \<lfloor>js_mul (js_mul (js_div (price d) GRAMS_PER_OUNCE) (js_div 18 24)) 100000000\<rfloor>)"
proof -
  define p where "p = price d"
  define g where "g = js_div p GRAMS_PER_OUNCE"
  have p0: "0 \<le> p" and pm: "p * 100000000 \<le> MAX_VALUE"
    using assms by (simp_all add: p_def)
  have g0: "0 \<le> g" and gd: "double g = g" and gp: "g \<le> p"
    using p0 by (simp_all add: g_def perGram_nonneg perGram_double perGram_le_price)
  note c = karat_chain [OF g0 gd]
  have k22p: "js_mul g (js_div 22 24) \<le> p" and k18p: "js_mul g (js_div 18 24) \<le> p"
    using c gp by linarith+
  have k22: "0 \<le> js_mul g (js_div 22 24)" using c by linarith
  have pM: "p \<le> MAX_VALUE" using p0 pm by linarith
  have f1: "g \<le> MAX_VALUE" using gp pM by linarith
  have f2: "js_mul g (js_div 22 24) \<le> MAX_VALUE" using k22p pM by linarith
  have f3: "js_mul g (js_div 18 24) \<le> MAX_VALUE" using k18p pM by linarith
  have f4: "js_mul g 100000000 \<le> MAX_VALUE"
    using g0 gp pm by (rule scaled_le_MAX_VALUE)
  have f5: "js_mul p 100000000 \<le> MAX_VALUE"
    using p0 order_refl pm by (rule scaled_le_MAX_VALUE)
  have f6: "js_mul (js_mul g (js_div 22 24)) 100000000 \<le> MAX_VALUE"
    using k22 k22p pm by (rule scaled_le_MAX_VALUE)
  have f7: "js_mul (js_mul g (js_div 18 24)) 100000000 \<le> MAX_VALUE"
    using c(1) k18p pm by (rule scaled_le_MAX_VALUE)
  have n1: "0 \<le> Math_floor (js_mul g 100000000)" using g0 by (rule scaled_floor_nonneg)
  have n2: "0 \<le> Math_floor (js_mul p 100000000)" using p0 by (rule scaled_floor_nonneg)
  have n3: "0 \<le> Math_floor (js_mul (js_mul g (js_div 22 24)) 100000000)"
    using k22 by (rule scaled_floor_nonneg)
  have n4: "0 \<le> Math_floor (js_mul (js_mul g (js_div 18 24)) 100000000)"
    using c(1) by (rule scaled_floor_nonneg)
  have "\<exists>ps. calculatePrices d = Inr ps \<and>
           0 \<le> pricePerGram ps \<and> 0 \<le> pricePerOunce ps \<and> 0 \<le> pricePerKarat24 ps \<and>
           0 \<le> pricePerKarat22 ps \<and> 0 \<le> pricePerKarat18 ps \<and>
           pricePerGram ps = \<lfloor>js_mul g 100000000\<rfloor> \<and>
           pricePerOunce ps = \<lfloor>js_mul p 100000000\<rfloor> \<and>
           pricePerKarat24 ps = pricePerGram ps \<and>
           pricePerKarat22 ps = \<lfloor>js_mul (js_mul g (js_div 22 24)) 100000000\<rfloor> \<and>
           pricePerKarat18 ps = \<lfloor>js_mul (js_mul g (js_div 18 24)) 100000000\<rfloor>"
    using n1 n2 n3 n4 by (simp add: calculatePrices_def Let_def g_def p_def Math_floor_def)
  with f1 f2 f3 f4 f5 f6 f7 show ?thesis
    unfolding g_def p_def by blast
qed

theorem calculatePrices_formulas_witness:
  "0 < price \<lparr>price = 2037.5\<rparr> \<and>
   price \<lparr>price = 2037.5\<rparr> * 100000000 \<le> MAX_VALUE \<and>
   js_mul (price \<lparr>price = 2037.5\<rparr>) 100000000 \<le> MAX_VALUE \<and>
   (\<exists>ps. calculatePrices \<lparr>price = 2037.5\<rparr> = Inr ps \<and>
      pricePerGram ps = 6550709727 \<and> pricePerOunce ps = 203750000000 \<and>
      pricePerKarat24 ps = 6550709727 \<and> pricePerKarat22 ps = 6004817249 \<and>
      pricePerKarat18 ps = 4913032295 \<and>
      pricePerGram ps = \<lfloor>js_mul (js_div (price \<lparr>price = 2037.5\<rparr>) GRAMS_PER_OUNCE) 100000000\<rfloor>) \<and>
   \<lfloor>(203750000000::real) / 31.1035\<rfloor> = 6550709727"
proof -
  have h1: "0 < price \<lparr>price = 2037.5\<rparr>" by simp
  have h2: "price \<lparr>price = 2037.5\<rparr> * 100000000 \<le> MAX_VALUE" by (simp add: MAX_VALUE_def)
  show ?thesis
    using h1 h2 calculatePrices_formulas [OF h1 h2]
    by (simp add: calculatePrices_2037_50)
qed

text \<open>
  Claim C1 says that \<open>calculatePrices\<close> fails for a spot price that is zero or
  negative. It has no check of its input: for the spot price 0 it returns five zeros.
\<close>

theorem calculatePrices_zero_counterexample:
  "calculatePrices \<lparr>price = 0\<rparr> =
     Inr \<lparr>pricePerGram = 0, pricePerOunce = 0, pricePerKarat24 = 0,
          pricePerKarat22 = 0, pricePerKarat18 = 0\<rparr>"
  by (simp add: calculatePrices_def Let_def Math_floor_def js_div_def js_mul_def)

text \<open>
  Claim C1, amended. For every spot price that is zero or negative, \<open>calculatePrices\<close>
  returns prices, none of which is positive (for the spot price 0 all five are 0, see
  above). A zero quote is rejected before, by \<open>fetchGoldPrice\<close>, and a zero price
  after, by the contract.
\<close>

theorem calculatePrices_nonpositive:
  assumes "price d \<le> 0"
  shows "\<exists>ps. calculatePrices d = Inr ps \<and>
           pricePerGram ps \<le> 0 \<and> pricePerOunce ps \<le> 0 \<and> pricePerKarat24 ps \<le> 0 \<and>
           pricePerKarat22 ps \<le> 0 \<and> pricePerKarat18 ps \<le> 0"
proof -
  define g where "g = js_div (price d) GRAMS_PER_OUNCE"
  have g0: "g \<le> 0" using assms by (simp add: g_def perGram_nonpos)
  have k22: "js_mul g (js_div 22 24) \<le> 0"
    unfolding js_mul_def karat22_factor using g0 by (intro double_nonpos) (simp add: mult_le_0_iff)
  have k18: "js_mul g (js_div 18 24) \<le> 0"
    unfolding js_mul_def karat18_factor using g0 by (intro double_nonpos) (simp add: mult_le_0_iff)
  show ?thesis
    using scaled_floor_nonpos [OF g0] scaled_floor_nonpos [OF assms]
      scaled_floor_nonpos [OF k22] scaled_floor_nonpos [OF k18]
    by (simp add: calculatePrices_def Let_def g_def)
qed

theorem calculatePrices_nonpositive_witness:
  "price \<lparr>price = - 2037.5\<rparr> \<le> 0 \<and>
   (\<exists>ps. calculatePrices \<lparr>price = - 2037.5\<rparr> = Inr ps \<and>
      pricePerGram ps = - 6550709728 \<and> pricePerOunce ps = - 203750000000 \<and>
      pricePerKarat24 ps = - 6550709728 \<and> pricePerKarat22 ps = - 6004817250 \<and>
      pricePerKarat18 ps = - 4913032296 \<and>
      pricePerGram ps \<le> 0 \<and> pricePerOunce ps \<le> 0 \<and> pricePerKarat24 ps \<le> 0 \<and>
      pricePerKarat22 ps \<le> 0 \<and> pricePerKarat18 ps \<le> 0)"
  using calculatePrices_nonpositive [of "\<lparr>price = - 2037.5\<rparr>"]
  by (simp add: calculatePrices_minus_2037_50)

text \<open>
  The arithmetic is that of doubles, not of decimal fractions: the quote 0.29 is read
  as the double nearest to it, which is below 0.29, and its \<open>pricePerOunce\<close> is
  28999999, not 29000000.
\<close>

lemma pricePerOunce_of_0_29:
  "Math_floor (js_mul (double 0.29) 100000000) = 28999999"
proof -
  have a: "double 0.29 = 5224175567749775 / 18014398509481984"
    using double_eqI [of "0.29" "- 2"] by (simp add: double_eval)
  have b: "js_mul (5224175567749775 / 18014398509481984) 100000000 =
             7784628223999999 / 268435456"
    unfolding js_mul_def
    using double_eqI [of "(5224175567749775 / 18014398509481984) * 100000000" 24]
    by (simp add: double_eval)
  show ?thesis unfolding Math_floor_def a b by simp
qed

section \<open>Properties of fetchGoldPrice and getGoldPrices\<close>

lemma catch_Error [simp]: "fetchGoldPrice_catch (Error m) = Error m"
  by (simp add: fetchGoldPrice_catch_def Error_def)

lemma fetch_scenarios:
  "fetchGoldPrice No_response = Inl (Error ''GoldAPI did not respond'')"
  "fetchGoldPrice (Http_response 503 ''Service Unavailable'' No_data) =
     Inl (Error ''GoldAPI request failed: 503'')"
  "fetchGoldPrice (Http_response 200 ''OK'' (Data (Some (4075 / 2)))) = Inr \<lparr>price = 4075 / 2\<rparr>"
  by (simp_all add: fetchGoldPrice_def fetchGoldPrice_try_def fetchGoldPrice_catch_def
      axios_get_def Error_def)

text \<open>
  Claim C10. When the quote source answers with a status from 200 to 299 and the body is
  missing, has no \<open>price\<close> or a falsy one, or has the price 0, \<open>fetchGoldPrice\<close> throws
  the error \<open>Invalid response format from GoldAPI\<close>: the error is thrown inside the
  \<open>try\<close> block and passes the \<open>catch\<close> block unchanged. So a quote that
  \<open>fetchGoldPrice\<close> returns has a non-zero price, and the prices of one attempt of
  \<open>getGoldPrices\<close> are calculated from such a quote.
\<close>

theorem fetchGoldPrice_rejects_falsy_price:
  "(200 \<le> status \<and> status < 300 \<and> (d = No_data \<or> d = Data None \<or> d = Data (Some 0)) \<longrightarrow>
      fetchGoldPrice (Http_response status statusText d) =
        Inl (Error ''Invalid response format from GoldAPI'')) \<and>
   (fetchGoldPrice x = Inr q \<longrightarrow> price q \<noteq> 0) \<and>
   (getGoldPrices_try x = Inr prices \<longrightarrow>
      (\<exists>q. fetchGoldPrice x = Inr q \<and> price q \<noteq> 0 \<and> calculatePrices q = Inr prices))"
  by (auto simp: fetchGoldPrice_def fetchGoldPrice_try_def axios_get_def getGoldPrices_try_def
      split: http_exchange.splits body.splits option.splits sum.splits if_splits)

theorem fetchGoldPrice_rejects_falsy_price_witness:
  "(200::nat) \<le> 200 \<and> (200::nat) < 300 \<and>
   fetchGoldPrice (Http_response 200 ''OK'' (Data (Some 0))) =
     Inl (Error ''Invalid response format from GoldAPI'') \<and>
   fetchGoldPrice (Http_response 200 ''OK'' (Data None)) =
     Inl (Error ''Invalid response format from GoldAPI'') \<and>
   fetchGoldPrice (Http_response 200 ''OK'' No_data) =
     Inl (Error ''Invalid response format from GoldAPI'') \<and>
   fetchGoldPrice (Http_response 200 ''OK'' (Data (Some 2037.5))) = Inr \<lparr>price = 2037.5\<rparr> \<and>
   price \<lparr>price = 2037.5\<rparr> \<noteq> 0 \<and>
   getGoldPrices_try (Http_response 200 ''OK'' (Data (Some 2037.5))) =
     Inr \<lparr>pricePerGram = 6550709727, pricePerOunce = 203750000000,
          pricePerKarat24 = 6550709727, pricePerKarat22 = 6004817249,
          pricePerKarat18 = 4913032295\<rparr>"
  using
    fetchGoldPrice_rejects_falsy_price [where status = 200 and statusText = "''OK''"
      and d = "Data (Some 0)"
      and x = "Http_response 200 ''OK'' (Data (Some 2037.5))" and q = "\<lparr>price = 2037.5\<rparr>"
      and prices = "\<lparr>pricePerGram = 6550709727, pricePerOunce = 203750000000,
          pricePerKarat24 = 6550709727, pricePerKarat22 = 6004817249,
          pricePerKarat18 = 4913032295\<rparr>"]
    fetchGoldPrice_rejects_falsy_price [where status = 200 and statusText = "''OK''"
      and d = "Data None"]
    fetchGoldPrice_rejects_falsy_price [where status = 200 and statusText = "''OK''"
      and d = "No_data"]
  by (simp add: fetch_scenarios getGoldPrices_try_def calculatePrices_2037_50)

lemma getGoldPrices_success:
  assumes "getGoldPrices_try (net (requests w)) = Inr prices"
  shows "getGoldPrices cfg net retryCount w = (Inr prices, w\<lparr>requests := requests w + 1\<rparr>)"
  using assms by (simp add: getGoldPrices.simps [of cfg net retryCount w])

lemma getGoldPrices_retry:
  assumes "getGoldPrices_try (net (requests w)) = Inl e" and "retryCount < maxRetries cfg"
  shows "getGoldPrices cfg net retryCount w =
           getGoldPrices cfg net (retryCount + 1)
             (w\<lparr>requests := requests w + 1, timeouts := timeouts w @ [retryDelayMs cfg]\<rparr>)"
  using assms by (simp add: getGoldPrices.simps [of cfg net retryCount w])

lemma getGoldPrices_give_up:
  assumes "getGoldPrices_try (net (requests w)) = Inl e" and "\<not> retryCount < maxRetries cfg"
  shows "getGoldPrices cfg net retryCount w = (Inl e, w\<lparr>requests := requests w + 1\<rparr>)"
  using assms by (simp add: getGoldPrices.simps [of cfg net retryCount w])

lemma getGoldPrices_succeeds_after:
  assumes "\<forall>i<k. \<exists>e. getGoldPrices_try (net (requests w + i)) = Inl e"
    and "getGoldPrices_try (net (requests w + k)) = Inr prices"
    and "retryCount + k \<le> maxRetries cfg"
  shows "getGoldPrices cfg net retryCount w =
           (Inr prices, w\<lparr>requests := requests w + k + 1,
                          timeouts := timeouts w @ replicate k (retryDelayMs cfg)\<rparr>)"
  using assms
proof (induction k arbitrary: retryCount w)
  case 0
  then show ?case by (simp add: getGoldPrices_success)
next
  case (Suc k)
  let ?w = "w\<lparr>requests := requests w + 1, timeouts := timeouts w @ [retryDelayMs cfg]\<rparr>"
  from Suc.prems(1) obtain e where e: "getGoldPrices_try (net (requests w)) = Inl e"
    by force
  have "getGoldPrices cfg net retryCount w = getGoldPrices cfg net (retryCount + 1) ?w"
    using e Suc.prems(3) by (intro getGoldPrices_retry) simp_all
  also have "\<dots> = (Inr prices, ?w\<lparr>requests := requests ?w + k + 1,
                          timeouts := timeouts ?w @ replicate k (retryDelayMs cfg)\<rparr>)"
  proof (rule Suc.IH)
    show "\<forall>i<k. \<exists>e. getGoldPrices_try (net (requests ?w + i)) = Inl e"
      using Suc.prems(1) by (auto dest: spec [of _ "Suc _"])
    show "getGoldPrices_try (net (requests ?w + k)) = Inr prices"
      using Suc.prems(2) by simp
    show "retryCount + 1 + k \<le> maxRetries cfg"
      using Suc.prems(3) by simp
  qed
  finally show ?case by (simp add: replicate_append_same)
qed

lemma getGoldPrices_fails_after:
  assumes "\<forall>i<k. \<exists>e. getGoldPrices_try (net (requests w + i)) = Inl e"
    and "getGoldPrices_try (net (requests w + k)) = Inl error"
    and "retryCount + k = maxRetries cfg"
  shows "getGoldPrices cfg net retryCount w =
           (Inl error, w\<lparr>requests := requests w + k + 1,
                         timeouts := timeouts w @ replicate k (retryDelayMs cfg)\<rparr>)"
  using assms
proof (induction k arbitrary: retryCount w)
  case 0
  then show ?case by (simp add: getGoldPrices_give_up)
next
  case (Suc k)
  let ?w = "w\<lparr>requests := requests w + 1, timeouts := timeouts w @ [retryDelayMs cfg]\<rparr>"
  from Suc.prems(1) obtain e where e: "getGoldPrices_try (net (requests w)) = Inl e"
    by force
  have "getGoldPrices cfg net retryCount w = getGoldPrices cfg net (retryCount + 1) ?w"
    using e Suc.prems(3) by (intro getGoldPrices_retry) simp_all
  also have "\<dots> = (Inl error, ?w\<lparr>requests := requests ?w + k + 1,
                          timeouts := timeouts ?w @ replicate k (retryDelayMs cfg)\<rparr>)"
  proof (rule Suc.IH)
    show "\<forall>i<k. \<exists>e. getGoldPrices_try (net (requests ?w + i)) = Inl e"
      using Suc.prems(1) by (auto dest: spec [of _ "Suc _"])
    show "getGoldPrices_try (net (requests ?w + k)) = Inl error"
      using Suc.prems(2) by simp
    show "retryCount + 1 + k = maxRetries cfg"
      using Suc.prems(3) by simp
  qed
  finally show ?case by (simp add: replicate_append_same)
qed

text \<open>
  Claim C4. With the configured \<open>maxRetries = 3\<close> and \<open>retryDelayMs = 5000\<close>: when the
  first two attempts fail and the third request returns a quote, \<open>getGoldPrices\<close>
  returns the prices calculated from that quote, after three requests and two waits of
  5000 ms; when all four attempts fail, it throws the error of the fourth, after four
  requests and three waits of 5000 ms.
\<close>

theorem getGoldPrices_retry_policy:
  "(getGoldPrices_try (net (requests w)) = Inl e0 \<and>
    getGoldPrices_try (net (requests w + 1)) = Inl e1 \<and>
    fetchGoldPrice (net (requests w + 2)) = Inr q \<longrightarrow>
      (\<exists>prices. calculatePrices q = Inr prices \<and>
         getGoldPrices (config_update n) net 0 w =
           (Inr prices, w\<lparr>requests := requests w + 3,
                          timeouts := timeouts w @ [5000, 5000]\<rparr>))) \<and>
   (getGoldPrices_try (net (requests w)) = Inl e0 \<and>
    getGoldPrices_try (net (requests w + 1)) = Inl e1 \<and>
    getGoldPrices_try (net (requests w + 2)) = Inl e2 \<and>
    getGoldPrices_try (net (requests w + 3)) = Inl e3 \<longrightarrow>
      getGoldPrices (config_update n) net 0 w =
        (Inl e3, w\<lparr>requests := requests w + 4,
                   timeouts := timeouts w @ [5000, 5000, 5000]\<rparr>))"
proof (intro conjI impI)
  assume a: "getGoldPrices_try (net (requests w)) = Inl e0 \<and>
    getGoldPrices_try (net (requests w + 1)) = Inl e1 \<and>
    fetchGoldPrice (net (requests w + 2)) = Inr q"
  obtain prices where p: "calculatePrices q = Inr prices"
    using calculatePrices_returns by blast
  have f: "\<forall>i<2. \<exists>e. getGoldPrices_try (net (requests w + i)) = Inl e"
    using a by (auto simp: less_Suc_eq numeral_2_eq_2)
  have s: "getGoldPrices_try (net (requests w + 2)) = Inr prices"
    using a p by (simp add: getGoldPrices_try_def)
  have "getGoldPrices (config_update n) net 0 w =
          (Inr prices, w\<lparr>requests := requests w + 2 + 1,
             timeouts := timeouts w @ replicate 2 (retryDelayMs (config_update n))\<rparr>)"
    using f s by (rule getGoldPrices_succeeds_after) (simp add: config_update_def)
  then show "\<exists>prices. calculatePrices q = Inr prices \<and>
         getGoldPrices (config_update n) net 0 w =
           (Inr prices, w\<lparr>requests := requests w + 3,
                          timeouts := timeouts w @ [5000, 5000]\<rparr>)"
    using p by (simp add: config_update_def numeral_2_eq_2)
next
  assume a: "getGoldPrices_try (net (requests w)) = Inl e0 \<and>
    getGoldPrices_try (net (requests w + 1)) = Inl e1 \<and>
    getGoldPrices_try (net (requests w + 2)) = Inl e2 \<and>
    getGoldPrices_try (net (requests w + 3)) = Inl e3"
  have f: "\<forall>i<3. \<exists>e. getGoldPrices_try (net (requests w + i)) = Inl e"
    using a by (auto simp: less_Suc_eq numeral_3_eq_3 numeral_2_eq_2)
  have "getGoldPrices (config_update n) net 0 w =
          (Inl e3, w\<lparr>requests := requests w + 3 + 1,
             timeouts := timeouts w @ replicate 3 (retryDelayMs (config_update n))\<rparr>)"
    using f by (rule getGoldPrices_fails_after) (use a in \<open>simp_all add: config_update_def\<close>)
  then show "getGoldPrices (config_update n) net 0 w =
        (Inl e3, w\<lparr>requests := requests w + 4,
                   timeouts := timeouts w @ [5000, 5000, 5000]\<rparr>)"
    by (simp add: config_update_def numeral_3_eq_3)
qed

theorem getGoldPrices_retry_policy_witness:
  "getGoldPrices_try (net_fails_twice (requests world0)) = Inl (Error ''GoldAPI did not respond'') \<and>
   getGoldPrices_try (net_fails_twice (requests world0 + 1)) =
     Inl (Error ''GoldAPI request failed: 503'') \<and>
   fetchGoldPrice (net_fails_twice (requests world0 + 2)) = Inr \<lparr>price = 2037.5\<rparr> \<and>
   getGoldPrices (config_update 15) net_fails_twice 0 world0 =
     (Inr \<lparr>pricePerGram = 6550709727, pricePerOunce = 203750000000,
           pricePerKarat24 = 6550709727, pricePerKarat22 = 6004817249,
           pricePerKarat18 = 4913032295\<rparr>,
      \<lparr>requests = 3, timeouts = [5000, 5000]\<rparr>) \<and>
   getGoldPrices_try (net_down (requests world0)) = Inl (Error ''GoldAPI did not respond'') \<and>
   getGoldPrices_try (net_down (requests world0 + 1)) = Inl (Error ''GoldAPI did not respond'') \<and>
   getGoldPrices_try (net_down (requests world0 + 2)) = Inl (Error ''GoldAPI did not respond'') \<and>
   getGoldPrices_try (net_down (requests world0 + 3)) = Inl (Error ''GoldAPI did not respond'') \<and>
   getGoldPrices (config_update 15) net_down 0 world0 =
     (Inl (Error ''GoldAPI did not respond''), \<lparr>requests = 4, timeouts = [5000, 5000, 5000]\<rparr>)"
  using
    getGoldPrices_retry_policy [where net = net_fails_twice and w = world0 and n = 15
      and ?e0.0 = "Error ''GoldAPI did not respond''"
      and ?e1.0 = "Error ''GoldAPI request failed: 503''"
      and q = "\<lparr>price = 2037.5\<rparr>"]
    getGoldPrices_retry_policy [where net = net_down and w = world0 and n = 15
      and ?e0.0 = "Error ''GoldAPI did not respond''"
      and ?e1.0 = "Error ''GoldAPI did not respond''"
      and ?e2.0 = "Error ''GoldAPI did not respond''"
      and ?e3.0 = "Error ''GoldAPI did not respond''"]
  by (simp add: net_fails_twice_def net_down_def world0_def getGoldPrices_try_def
      fetch_scenarios calculatePrices_2037_50)

section \<open>Properties of updatePrices and its callers\<close>

lemma getGoldPrices_net_down:
  "getGoldPrices (config_update 15) net_down 0 world0 =
     (Inl (Error ''GoldAPI did not respond''), \<lparr>requests = 4, timeouts = [5000, 5000, 5000]\<rparr>)"
proof -
  have t: "getGoldPrices_try (net_down i) = Inl (Error ''GoldAPI did not respond'')" for i
    by (simp add: getGoldPrices_try_def net_down_def fetch_scenarios)
  have "getGoldPrices (config_update 15) net_down 0 world0 =
          (Inl (Error ''GoldAPI did not respond''),
           world0\<lparr>requests := requests world0 + 3 + 1,
             timeouts := timeouts world0 @ replicate 3 (retryDelayMs (config_update 15))\<rparr>)"
    by (rule getGoldPrices_fails_after) (simp_all add: t config_update_def)
  then show ?thesis by (simp add: world0_def config_update_def numeral_3_eq_3)
qed

lemma getGoldPrices_net_zero_quote:
  "getGoldPrices (config_update 15) net_zero_quote 0 world0 =
     (Inl (Error ''Invalid response format from GoldAPI''),
      \<lparr>requests = 4, timeouts = [5000, 5000, 5000]\<rparr>)"
proof -
  have t: "getGoldPrices_try (net_zero_quote i) =
             Inl (Error ''Invalid response format from GoldAPI'')" for i
    by (simp add: getGoldPrices_try_def net_zero_quote_def fetchGoldPrice_def
        fetchGoldPrice_try_def axios_get_def)
  have "getGoldPrices (config_update 15) net_zero_quote 0 world0 =
          (Inl (Error ''Invalid response format from GoldAPI''),
           world0\<lparr>requests := requests world0 + 3 + 1,
             timeouts := timeouts world0 @ replicate 3 (retryDelayMs (config_update 15))\<rparr>)"
    by (rule getGoldPrices_fails_after) (simp_all add: t config_update_def)
  then show ?thesis by (simp add: world0_def config_update_def numeral_3_eq_3)
qed

lemma getGoldPrices_net_up:
  "getGoldPrices (config_update 15) net_up 0 world0 =
     (Inr \<lparr>pricePerGram = 6550709727, pricePerOunce = 203750000000,
           pricePerKarat24 = 6550709727, pricePerKarat22 = 6004817249,
           pricePerKarat18 = 4913032295\<rparr>, \<lparr>requests = 1, timeouts = []\<rparr>)"
  by (simp add: getGoldPrices_success getGoldPrices_try_def net_up_def fetch_scenarios
      calculatePrices_2037_50 world0_def)

lemma pricesChanged_fresh: "pricesChanged fresh_record newPrices"
  by (simp add: pricesChanged_def fresh_record_def)

text \<open>
  Claim C5 says that \<open>updatePrices\<close> of the updater never throws for a failed fetch or a
  failed submission. Its \<open>catch\<close> block logs the error and throws it again: with a
  quote source that never answers it throws \<open>GoldAPI did not respond\<close> after the four
  attempts, with one that answers with the price 0 it throws
  \<open>Invalid response format from GoldAPI\<close>, and with a ledger that refuses the gas
  estimate it throws the error of the estimate.
\<close>

theorem updatePrices_throws_counterexample:
  "updatePrices (config_update 15) net_down chain_accepting world0 =
     (Inl (Error ''GoldAPI did not respond''), \<lparr>requests = 4, timeouts = [5000, 5000, 5000]\<rparr>) \<and>
   updatePrices (config_update 15) net_zero_quote chain_accepting world0 =
     (Inl (Error ''Invalid response format from GoldAPI''),
      \<lparr>requests = 4, timeouts = [5000, 5000, 5000]\<rparr>) \<and>
   updatePrices (config_update 15) net_up chain_refusing world0 =
     (Inl (Error ''execution reverted''), \<lparr>requests = 1, timeouts = []\<rparr>)"
  by (simp add: updatePrices_def getGoldPrices_net_down getGoldPrices_net_zero_quote
      getGoldPrices_net_up getCurrentContractPrices_def chain_refusing_def
      updateContractPrices_def pricesChanged_def fresh_record_def)

text \<open>
  Claim C5, amended. \<open>updatePrices\<close> throws to its caller the error of whichever step
  fails: \<open>getGoldPrices\<close> after its retries, the read of the ledger, or the submission
  when an update is needed. It returns a result only when no step fails: \<open>updated: false\<close>
  when the prices have not changed, \<open>updated: true\<close> with the receipt otherwise. The
  failure is caught one level up: \<open>scheduledUpdate\<close> never throws, and the handler of
  \<open>POST /update-prices\<close> answers a thrown error with status 500 and its message.
\<close>

theorem updatePrices_rethrows:
  "(getGoldPrices cfg net 0 w = (Inl e, w') \<longrightarrow> updatePrices cfg net ch w = (Inl e, w')) \<and>
   (getGoldPrices cfg net 0 w = (Inr newPrices, w') \<and> getCurrentContractPrices ch = Inl e \<longrightarrow>
      updatePrices cfg net ch w = (Inl e, w')) \<and>
   (getGoldPrices cfg net 0 w = (Inr newPrices, w') \<and>
    getCurrentContractPrices ch = Inr currentPrices \<and>
    pricesChanged currentPrices newPrices \<and>
    updateContractPrices ch newPrices = Inl e \<longrightarrow>
      updatePrices cfg net ch w = (Inl e, w')) \<and>
   (getGoldPrices cfg net 0 w = (Inr newPrices, w') \<and>
    getCurrentContractPrices ch = Inr currentPrices \<and>
    \<not> pricesChanged currentPrices newPrices \<longrightarrow>
      updatePrices cfg net ch w = (Inr (Not_updated ''No significant price change''), w')) \<and>
   (getGoldPrices cfg net 0 w = (Inr newPrices, w') \<and>
    getCurrentContractPrices ch = Inr currentPrices \<and>
    pricesChanged currentPrices newPrices \<and>
    updateContractPrices ch newPrices = Inr r \<longrightarrow>
      updatePrices cfg net ch w =
        (Inr (Updated (hash r) (blockNumber r) (string_of_nat (gasUsed r)) newPrices), w')) \<and>
   fst (scheduledUpdate cfg net ch w) = Inr () \<and>
   snd (scheduledUpdate cfg net ch w) = snd (updatePrices cfg net ch w) \<and>
   (updatePrices cfg net ch w = (Inl e, w') \<longrightarrow>
      post_update_prices cfg net ch w =
        (Reply_failure 500 ''Failed to update prices'' (message e), w'))"
  by (auto simp: updatePrices_def scheduledUpdate_def post_update_prices_def Let_def
      split: prod.splits sum.splits)

theorem updatePrices_rethrows_witness:
  "getGoldPrices (config_update 15) net_down 0 world0 = (Inl (Error ''GoldAPI did not respond''), \<lparr>requests = 4, timeouts = [5000, 5000, 5000]\<rparr>) \<and>
   updatePrices (config_update 15) net_down chain_accepting world0 = (Inl (Error ''GoldAPI did not respond''), \<lparr>requests = 4, timeouts = [5000, 5000, 5000]\<rparr>) \<and>
   getCurrentContractPrices chain_unreachable = Inl (Error ''could not detect network'') \<and>
   updatePrices (config_update 15) net_up chain_unreachable world0 = (Inl (Error ''could not detect network''), \<lparr>requests = 1, timeouts = []\<rparr>) \<and>
   updateContractPrices chain_refusing
     \<lparr>pricePerGram = 6550709727, pricePerOunce = 203750000000,
        pricePerKarat24 = 6550709727, pricePerKarat22 = 6004817249,
        pricePerKarat18 = 4913032295\<rparr> = Inl (Error ''execution reverted'') \<and>
   updatePrices (config_update 15) net_up chain_refusing world0 = (Inl (Error ''execution reverted''), \<lparr>requests = 1, timeouts = []\<rparr>) \<and>
   \<not> pricesChanged
     \<lparr>pricePerGram = 6550709700, pricePerOunce = 203749999160,
        pricePerKarat24 = 6550709700, pricePerKarat22 = 6004817225,
        pricePerKarat18 = 4913032275, lastUpdated = 1705318200\<rparr>
     \<lparr>pricePerGram = 6550709727, pricePerOunce = 203750000000,
        pricePerKarat24 = 6550709727, pricePerKarat22 = 6004817249,
        pricePerKarat18 = 4913032295\<rparr> \<and>
   updatePrices (config_update 15) net_up chain_up_to_date world0 =
     (Inr (Not_updated ''No significant price change''), \<lparr>requests = 1, timeouts = []\<rparr>) \<and>
   updatePrices (config_update 15) net_up chain_accepting world0 =
     (Inr (Updated ''0xabc'' 52000000 ''48211''
        \<lparr>pricePerGram = 6550709727, pricePerOunce = 203750000000,
        pricePerKarat24 = 6550709727, pricePerKarat22 = 6004817249,
        pricePerKarat18 = 4913032295\<rparr>), \<lparr>requests = 1, timeouts = []\<rparr>) \<and>
   scheduledUpdate (config_update 15) net_down chain_accepting world0 = (Inr (), \<lparr>requests = 4, timeouts = [5000, 5000, 5000]\<rparr>) \<and>
   post_update_prices (config_update 15) net_down chain_accepting world0 =
     (Reply_failure 500 ''Failed to update prices'' ''GoldAPI did not respond'', \<lparr>requests = 4, timeouts = [5000, 5000, 5000]\<rparr>)"
  using
    updatePrices_rethrows [where cfg = "config_update 15" and net = net_down and ch = chain_accepting
      and w = world0 and e = "Error ''GoldAPI did not respond''" and w' = "\<lparr>requests = 4, timeouts = [5000, 5000, 5000]\<rparr>"
      and newPrices = "\<lparr>pricePerGram = 6550709727, pricePerOunce = 203750000000,
        pricePerKarat24 = 6550709727, pricePerKarat22 = 6004817249,
        pricePerKarat18 = 4913032295\<rparr>"
      and currentPrices = "fresh_record"
      and r = "\<lparr>hash = ''0xabc'', blockNumber = 52000000, gasUsed = 48211\<rparr>"]
    updatePrices_rethrows [where cfg = "config_update 15" and net = net_up and ch = chain_unreachable
      and w = world0 and e = "Error ''could not detect network''" and w' = "\<lparr>requests = 1, timeouts = []\<rparr>"
      and newPrices = "\<lparr>pricePerGram = 6550709727, pricePerOunce = 203750000000,
        pricePerKarat24 = 6550709727, pricePerKarat22 = 6004817249,
        pricePerKarat18 = 4913032295\<rparr>"
      and currentPrices = "fresh_record"
      and r = "\<lparr>hash = ''0xabc'', blockNumber = 52000000, gasUsed = 48211\<rparr>"]
    updatePrices_rethrows [where cfg = "config_update 15" and net = net_up and ch = chain_refusing
      and w = world0 and e = "Error ''execution reverted''" and w' = "\<lparr>requests = 1, timeouts = []\<rparr>"
      and newPrices = "\<lparr>pricePerGram = 6550709727, pricePerOunce = 203750000000,
        pricePerKarat24 = 6550709727, pricePerKarat22 = 6004817249,
        pricePerKarat18 = 4913032295\<rparr>"
      and currentPrices = "fresh_record"
      and r = "\<lparr>hash = ''0xabc'', blockNumber = 52000000, gasUsed = 48211\<rparr>"]
    updatePrices_rethrows [where cfg = "config_update 15" and net = net_up and ch = chain_up_to_date
      and w = world0 and e = "Error ''execution reverted''" and w' = "\<lparr>requests = 1, timeouts = []\<rparr>"
      and newPrices = "\<lparr>pricePerGram = 6550709727, pricePerOunce = 203750000000,
        pricePerKarat24 = 6550709727, pricePerKarat22 = 6004817249,
        pricePerKarat18 = 4913032295\<rparr>"
      and currentPrices = "\<lparr>pricePerGram = 6550709700, pricePerOunce = 203749999160,
        pricePerKarat24 = 6550709700, pricePerKarat22 = 6004817225,
        pricePerKarat18 = 4913032275, lastUpdated = 1705318200\<rparr>"
      and r = "\<lparr>hash = ''0xabc'', blockNumber = 52000000, gasUsed = 48211\<rparr>"]
    updatePrices_rethrows [where cfg = "config_update 15" and net = net_up and ch = chain_accepting
      and w = world0 and e = "Error ''execution reverted''" and w' = "\<lparr>requests = 1, timeouts = []\<rparr>"
      and newPrices = "\<lparr>pricePerGram = 6550709727, pricePerOunce = 203750000000,
        pricePerKarat24 = 6550709727, pricePerKarat22 = 6004817249,
        pricePerKarat18 = 4913032295\<rparr>"
      and currentPrices = "fresh_record"
      and r = "\<lparr>hash = ''0xabc'', blockNumber = 52000000, gasUsed = 48211\<rparr>"]
  by (simp add: getGoldPrices_net_down getGoldPrices_net_up getCurrentContractPrices_def
      updateContractPrices_def chain_accepting_def chain_unreachable_def chain_refusing_def
      chain_up_to_date_def fresh_record_def pricesChanged_def or_default_def
      parseUnits_gwei_def Error_def prod_eq_iff)

section \<open>Properties of the contract\<close>

lemma updatePrices_cases:
  "GoldOracle_updatePrices e gram ounce k24 k22 k18 s =
     (if msg_sender e \<noteq> owner s then Inl (Revert ''GoldOracle: caller is not the owner'')
      else if gram = 0 then Inl (Revert ''GoldOracle: invalid gram price'')
      else if ounce = 0 then Inl (Revert ''GoldOracle: invalid ounce price'')
      else if k24 = 0 then Inl (Revert ''GoldOracle: invalid 24K price'')
      else if k22 = 0 then Inl (Revert ''GoldOracle: invalid 22K price'')
      else if k18 = 0 then Inl (Revert ''GoldOracle: invalid 18K price'')
      else Inr (s\<lparr>pricePerGram := gram, pricePerOunce := ounce, pricePerKarat24 := k24,
                  pricePerKarat22 := k22, pricePerKarat18 := k18,
                  lastUpdated := block_timestamp e\<rparr>))"
  by (simp add: GoldOracle_updatePrices_def onlyOwner_def word_gt_0)

lemma transact_updatePrices:
  "transact e (UpdatePrices gram ounce k24 k22 k18) s =
     (case GoldOracle_updatePrices e gram ounce k24 k22 k18 s of Inl _ \<Rightarrow> s | Inr s' \<Rightarrow> s')"
  by (simp add: transact_def split: sum.splits)

text \<open>
  Claim C6. \<open>updatePrices(gram, ounce, k24, k22, k18)\<close> of the contract reverts when the
  caller is not the owner or when one of the five values is zero, and the storage after
  such a transaction is the storage before it. Otherwise the call succeeds: the five
  values are stored, \<open>lastUpdated\<close> is the timestamp of the block, and \<open>owner\<close> is as
  before.
\<close>

theorem updatePrices_reverts_or_stores:
  "(msg_sender e \<noteq> owner s \<or> gram = 0 \<or> ounce = 0 \<or> k24 = 0 \<or> k22 = 0 \<or> k18 = 0 \<longrightarrow>
      (\<exists>r. GoldOracle_updatePrices e gram ounce k24 k22 k18 s = Inl r) \<and>
      transact e (UpdatePrices gram ounce k24 k22 k18) s = s) \<and>
   (msg_sender e = owner s \<and> gram \<noteq> 0 \<and> ounce \<noteq> 0 \<and> k24 \<noteq> 0 \<and> k22 \<noteq> 0 \<and> k18 \<noteq> 0 \<longrightarrow>
      GoldOracle_updatePrices e gram ounce k24 k22 k18 s =
        Inr \<lparr>pricePerGram = gram, pricePerOunce = ounce, pricePerKarat24 = k24,
             pricePerKarat22 = k22, pricePerKarat18 = k18,
             lastUpdated = block_timestamp e, owner = owner s\<rparr> \<and>
      transact e (UpdatePrices gram ounce k24 k22 k18) s =
        \<lparr>pricePerGram = gram, pricePerOunce = ounce, pricePerKarat24 = k24,
         pricePerKarat22 = k22, pricePerKarat18 = k18,
         lastUpdated = block_timestamp e, owner = owner s\<rparr>)"
  by (cases s) (simp add: transact_updatePrices updatePrices_cases)

theorem updatePrices_reverts_or_stores_witness:
  "msg_sender \<lparr>msg_sender = 2, block_timestamp = 1705318200\<rparr> \<noteq> owner (GoldOracle_constructor \<lparr>msg_sender = 1, block_timestamp = 1705000000\<rparr>) \<and>
   transact \<lparr>msg_sender = 2, block_timestamp = 1705318200\<rparr>
     (UpdatePrices 6550000000 203750000000 6550000000 6004166667 4912500000)
     (GoldOracle_constructor \<lparr>msg_sender = 1, block_timestamp = 1705000000\<rparr>) =
     GoldOracle_constructor \<lparr>msg_sender = 1, block_timestamp = 1705000000\<rparr> \<and>
   transact \<lparr>msg_sender = 1, block_timestamp = 1705318200\<rparr>
     (UpdatePrices 6550000000 203750000000 6550000000 0 4912500000)
     (GoldOracle_constructor \<lparr>msg_sender = 1, block_timestamp = 1705000000\<rparr>) =
     GoldOracle_constructor \<lparr>msg_sender = 1, block_timestamp = 1705000000\<rparr> \<and>
   msg_sender \<lparr>msg_sender = 1, block_timestamp = 1705318200\<rparr> = owner (GoldOracle_constructor \<lparr>msg_sender = 1, block_timestamp = 1705000000\<rparr>) \<and>
   GoldOracle_updatePrices \<lparr>msg_sender = 1, block_timestamp = 1705318200\<rparr>
     6550000000 203750000000 6550000000 6004166667 4912500000
     (GoldOracle_constructor \<lparr>msg_sender = 1, block_timestamp = 1705000000\<rparr>) =
     Inr \<lparr>pricePerGram = 6550000000, pricePerOunce = 203750000000,
          pricePerKarat24 = 6550000000, pricePerKarat22 = 6004166667,
          pricePerKarat18 = 4912500000, lastUpdated = 1705318200, owner = 1\<rparr>"
  using
    updatePrices_reverts_or_stores [of "\<lparr>msg_sender = 2, block_timestamp = 1705318200\<rparr>"
      "GoldOracle_constructor \<lparr>msg_sender = 1, block_timestamp = 1705000000\<rparr>"
      6550000000 203750000000 6550000000 6004166667 4912500000]
    updatePrices_reverts_or_stores [of "\<lparr>msg_sender = 1, block_timestamp = 1705318200\<rparr>"
      "GoldOracle_constructor \<lparr>msg_sender = 1, block_timestamp = 1705000000\<rparr>"
      6550000000 203750000000 6550000000 0 4912500000]
    updatePrices_reverts_or_stores [of "\<lparr>msg_sender = 1, block_timestamp = 1705318200\<rparr>"
      "GoldOracle_constructor \<lparr>msg_sender = 1, block_timestamp = 1705000000\<rparr>"
      6550000000 203750000000 6550000000 6004166667 4912500000]
  by (simp add: GoldOracle_constructor_def)

lemma transact_preserves:
  assumes "prices_invariant s" and "0 < block_timestamp e"
  shows "prices_invariant (transact e c s)"
proof (cases c)
  case (UpdatePrices g ou a b d)
  then show ?thesis using assms
    by (auto simp: transact_updatePrices updatePrices_cases prices_invariant_def priced_def word_gt_0)
next
  case (TransferOwnership n)
  then show ?thesis using assms
    by (auto simp: transact_def transferOwnership_def prices_invariant_def priced_def fresh_def split: sum.splits)
qed (use assms in \<open>auto simp: transact_def split: sum.splits\<close>)

lemma reachable_invariant: "reachable s \<Longrightarrow> prices_invariant s"
proof (induction rule: reachable.induct)
  case (deployed e)
  show ?case by (simp add: prices_invariant_def fresh_def GoldOracle_constructor_def)
next
  case (called s e c)
  then show ?case by (simp add: transact_preserves)
qed

text \<open>
  Claim C9. In every reachable state of the contract either the five prices and
  \<open>lastUpdated\<close> are all zero (the state after deployment), or the five prices and
  \<open>lastUpdated\<close> are all positive; and every call (\<open>updatePrices\<close>,
  \<open>transferOwnership\<close>, each view function and getter), successful or reverted, in a
  block with a positive timestamp leads from a state with this property to a state with
  this property.
\<close>

theorem prices_invariant_holds:
  "(reachable s \<longrightarrow> prices_invariant s) \<and>
   (prices_invariant s \<and> 0 < block_timestamp e \<longrightarrow> prices_invariant (transact e c s))"
  by (simp add: reachable_invariant transact_preserves)

theorem prices_invariant_holds_witness:
  "reachable (transact \<lparr>msg_sender = 1, block_timestamp = 1705318200\<rparr>
       (UpdatePrices 6550000000 203750000000 6550000000 6004166667 4912500000)
       (GoldOracle_constructor \<lparr>msg_sender = 1, block_timestamp = 1705000000\<rparr>)) \<and>
   prices_invariant (transact \<lparr>msg_sender = 1, block_timestamp = 1705318200\<rparr>
       (UpdatePrices 6550000000 203750000000 6550000000 6004166667 4912500000)
       (GoldOracle_constructor \<lparr>msg_sender = 1, block_timestamp = 1705000000\<rparr>)) \<and>
   0 < block_timestamp \<lparr>msg_sender = 1, block_timestamp = 1705400000\<rparr> \<and>
   prices_invariant (transact \<lparr>msg_sender = 1, block_timestamp = 1705400000\<rparr>
     (TransferOwnership 2)
     (transact \<lparr>msg_sender = 1, block_timestamp = 1705318200\<rparr>
       (UpdatePrices 6550000000 203750000000 6550000000 6004166667 4912500000)
       (GoldOracle_constructor \<lparr>msg_sender = 1, block_timestamp = 1705000000\<rparr>)))"
proof -
  let ?s1 = "transact \<lparr>msg_sender = 1, block_timestamp = 1705318200\<rparr>
       (UpdatePrices 6550000000 203750000000 6550000000 6004166667 4912500000)
       (GoldOracle_constructor \<lparr>msg_sender = 1, block_timestamp = 1705000000\<rparr>)"
  have r: "reachable ?s1"
    by (rule reachable.called [OF reachable.deployed]) simp
  have p: "(0::uint256) < block_timestamp \<lparr>msg_sender = 1, block_timestamp = 1705400000\<rparr>"
    by simp
  from r p prices_invariant_holds [of ?s1 "\<lparr>msg_sender = 1, block_timestamp = 1705400000\<rparr>" "TransferOwnership 2"]
  show ?thesis by blast
qed

text \<open>
  The timestamp matters. In a block with the timestamp 0, which no chain has after its
  genesis block, \<open>updatePrices\<close> would store positive prices with \<open>lastUpdated = 0\<close>.
\<close>

lemma updatePrices_at_timestamp_zero:
  "\<not> prices_invariant
       (transact \<lparr>msg_sender = 1, block_timestamp = 0\<rparr>
          (UpdatePrices 6550000000 203750000000 6550000000 6004166667 4912500000)
          (GoldOracle_constructor \<lparr>msg_sender = 1, block_timestamp = 1705000000\<rparr>))"
  by (simp add: transact_updatePrices updatePrices_cases GoldOracle_constructor_def
      prices_invariant_def fresh_def priced_def)

section \<open>Properties of the change decision\<close>

text \<open>
  Claim C3. \<open>pricesChanged\<close> (the spec's \<open>shouldUpdate\<close>) is true whenever
  \<open>lastUpdated\<close> of the current record is 0, whatever the candidate; otherwise it is
  true if and only if the absolute difference of the two \<open>pricePerGram\<close> values is
  greater than 10000, so that a difference of exactly 10000 means no update.
\<close>

theorem pricesChanged_policy:
  "(lastUpdated current = 0 \<longrightarrow> pricesChanged current candidate) \<and>
   (lastUpdated current \<noteq> 0 \<longrightarrow>
      pricesChanged current candidate = (10000 < \<bar>pricePerGram current - pricePerGram candidate\<bar>))"
  by (auto simp: pricesChanged_def Let_def)

theorem pricesChanged_policy_witness:
  "lastUpdated \<lparr>pricePerGram = 0, pricePerOunce = 0, pricePerKarat24 = 0, pricePerKarat22 = 0,
      pricePerKarat18 = 0, lastUpdated = (0::int)\<rparr> = 0 \<and>
   pricesChanged \<lparr>pricePerGram = 0, pricePerOunce = 0, pricePerKarat24 = 0, pricePerKarat22 = 0,
      pricePerKarat18 = 0, lastUpdated = 0\<rparr>
     \<lparr>pricePerGram = 0, pricePerOunce = 0, pricePerKarat24 = 0, pricePerKarat22 = 0,
      pricePerKarat18 = 0\<rparr> \<and>
   lastUpdated \<lparr>pricePerGram = 6550000000, pricePerOunce = 203750000000,
      pricePerKarat24 = 6550000000, pricePerKarat22 = 6004166667,
      pricePerKarat18 = 4912500000, lastUpdated = (1705318200::int)\<rparr> \<noteq> 0 \<and>
   \<not> pricesChanged \<lparr>pricePerGram = 6550000000, pricePerOunce = 203750000000,
      pricePerKarat24 = 6550000000, pricePerKarat22 = 6004166667,
      pricePerKarat18 = 4912500000, lastUpdated = 1705318200\<rparr>
     \<lparr>pricePerGram = 6550010000, pricePerOunce = 203750311035,
      pricePerKarat24 = 6550010000, pricePerKarat22 = 6004175833,
      pricePerKarat18 = 4912507500\<rparr> \<and>
   pricesChanged \<lparr>pricePerGram = 6550000000, pricePerOunce = 203750000000,
      pricePerKarat24 = 6550000000, pricePerKarat22 = 6004166667,
      pricePerKarat18 = 4912500000, lastUpdated = 1705318200\<rparr>
     \<lparr>pricePerGram = 6549989999, pricePerOunce = 203749688933,
      pricePerKarat24 = 6549989999, pricePerKarat22 = 6004157499,
      pricePerKarat18 = 4912492499\<rparr>"
  using
    pricesChanged_policy [of "\<lparr>pricePerGram = 0, pricePerOunce = 0, pricePerKarat24 = 0, pricePerKarat22 = 0,
      pricePerKarat18 = 0, lastUpdated = 0\<rparr>"
      "\<lparr>pricePerGram = 0, pricePerOunce = 0, pricePerKarat24 = 0, pricePerKarat22 = 0,
      pricePerKarat18 = 0\<rparr>"]
    pricesChanged_policy [of "\<lparr>pricePerGram = 6550000000, pricePerOunce = 203750000000,
      pricePerKarat24 = 6550000000, pricePerKarat22 = 6004166667,
      pricePerKarat18 = 4912500000, lastUpdated = 1705318200\<rparr>"
     "\<lparr>pricePerGram = 6550010000, pricePerOunce = 203750311035,
      pricePerKarat24 = 6550010000, pricePerKarat22 = 6004175833,
      pricePerKarat18 = 4912507500\<rparr>"]
    pricesChanged_policy [of "\<lparr>pricePerGram = 6550000000, pricePerOunce = 203750000000,
      pricePerKarat24 = 6550000000, pricePerKarat22 = 6004166667,
      pricePerKarat18 = 4912500000, lastUpdated = 1705318200\<rparr>"
     "\<lparr>pricePerGram = 6549989999, pricePerOunce = 203749688933,
      pricePerKarat24 = 6549989999, pricePerKarat22 = 6004157499,
      pricePerKarat18 = 4912492499\<rparr>"]
  by simp

text \<open>
  Claim C8. For one current record and two candidates with the same \<open>pricePerGram\<close>,
  \<open>pricesChanged\<close> returns the same answer, however the candidates differ in their
  other four fields.
\<close>

theorem pricesChanged_only_perGram:
  "pricePerGram candidate1 = pricePerGram candidate2 \<Longrightarrow>
     pricesChanged current candidate1 = pricesChanged current candidate2"
  by (simp add: pricesChanged_def)

theorem pricesChanged_only_perGram_witness:
  "pricePerGram \<lparr>pricePerGram = (6550000400::int), pricePerOunce = 203750000000,
      pricePerKarat24 = 6550000400, pricePerKarat22 = 6004167033,
      pricePerKarat18 = 4912500300\<rparr> =
   pricePerGram \<lparr>pricePerGram = (6550000400::int), pricePerOunce = 1,
      pricePerKarat24 = 999999999999, pricePerKarat22 = 0,
      pricePerKarat18 = -5\<rparr> \<and>
   pricesChanged \<lparr>pricePerGram = 6550000000, pricePerOunce = 203750000000,
      pricePerKarat24 = 6550000000, pricePerKarat22 = 6004166667,
      pricePerKarat18 = 4912500000, lastUpdated = 1705318200\<rparr>
     \<lparr>pricePerGram = 6550000400, pricePerOunce = 203750000000,
      pricePerKarat24 = 6550000400, pricePerKarat22 = 6004167033,
      pricePerKarat18 = 4912500300\<rparr> =
   pricesChanged \<lparr>pricePerGram = 6550000000, pricePerOunce = 203750000000,
      pricePerKarat24 = 6550000000, pricePerKarat22 = 6004166667,
      pricePerKarat18 = 4912500000, lastUpdated = 1705318200\<rparr>
     \<lparr>pricePerGram = 6550000400, pricePerOunce = 1,
      pricePerKarat24 = 999999999999, pricePerKarat22 = 0,
      pricePerKarat18 = -5\<rparr>"
proof -
  have h: "pricePerGram \<lparr>pricePerGram = (6550000400::int), pricePerOunce = 203750000000,
      pricePerKarat24 = 6550000400, pricePerKarat22 = 6004167033,
      pricePerKarat18 = 4912500300\<rparr> =
   pricePerGram \<lparr>pricePerGram = (6550000400::int), pricePerOunce = 1,
      pricePerKarat24 = 999999999999, pricePerKarat22 = 0,
      pricePerKarat18 = -5\<rparr>" by simp
  show ?thesis using h pricesChanged_only_perGram [OF h] by blast
qed

end
